theory Spec2Isabelle
  imports Complex_Main "HOL-Library.Sublist"
begin

section \<open>The pipeline orchestrator (run_pipeline.py)\<close>

text \<open>
  The script is a module body: it prints a banner, calls the entry point of the
  standardization package inside a \<^verbatim>\<open>try\<close>, calls the entry point of the analytics
  package inside a second \<^verbatim>\<open>try\<close>, and prints a closing report. Each
  \<^verbatim>\<open>except Exception as e\<close> prints a message, prints the traceback and calls
  \<^verbatim>\<open>sys.exit(1)\<close>. Falling off the end of the module is exit code 0.

  The two entry points (\<^verbatim>\<open>ai_standardization.run_standardization.main\<close> and
  \<^verbatim>\<open>ai_analytics.run_analytics.main\<close>, imported as \<^verbatim>\<open>run_analytics_full\<close>) are
  not part of the orchestrator: they are parameters of the model. The import statement
  sits in the same \<^verbatim>\<open>try\<close> as the call, so a failing import is a raising entry
  point that leaves the world as it found it.
\<close>

text \<open>
  An exception: its class (the classes some handler or result tells apart, and
  \<open>OtherError\<close> for the rest), \<^verbatim>\<open>str(e)\<close>, and the lines
  \<^verbatim>\<open>traceback.print_exc()\<close> writes.
\<close>

datatype exn_class =
  FileNotFoundError | EmptyDataError | KeyError | ZeroDivisionError
  | RequestEntityTooLarge | OtherError

datatype exn = Exn (cls: exn_class) (message: string) (trace: "string list")

text \<open>
  What a call of an entry point can do. It returns; or it raises an
  \<^verbatim>\<open>Exception\<close>, which the handler of the script catches; or it leaves by an
  exception that \<^verbatim>\<open>except Exception\<close> does not catch (\<^verbatim>\<open>SystemExit\<close> from
  \<^verbatim>\<open>sys.exit\<close>, \<^verbatim>\<open>KeyboardInterrupt\<close>): then the interpreter ends the process
  with the given exit code after writing the given lines to the error stream. In each
  case the call leaves a world (the files it wrote) behind.
\<close>

datatype 'w outcome =
  Returned 'w
  | Raised exn 'w
  | Escaped int "string list" 'w

text \<open>
  The result of a run: the world it leaves, the lines the orchestrator itself printed,
  the lines on the error stream, and the exit code of the process.
\<close>

record 'w run =
  world :: 'w
  stdout :: "string list"
  stderr :: "string list"
  exit_code :: int

definition rule70 :: "char \<Rightarrow> string" where
  "rule70 c = replicate 70 c"

text \<open>The check mark of the closing report, U+2713, in UTF-8.\<close>

definition check_mark :: string where
  "check_mark = [CHR 0xE2, CHR 0x9C, CHR 0x93]"

definition banner :: "string list" where
  "banner = [rule70 CHR ''='',
     ''HPCL INTELLIGENT COST DATABASE - DATA PROCESSING PIPELINE'',
     rule70 CHR ''='']"

definition step1_header :: "string list" where
  "step1_header = ['''', ''[STEP 1/3] Running Item Standardization...'', rule70 CHR ''-'']"

definition step2_header :: "string list" where
  "step2_header = ['''', ''[STEP 2/3] Running Cost Analytics Generation...'', rule70 CHR ''-'']"

text \<open>
  The closing report, in two parts: the lines up to \<^verbatim>\<open>Generated files:\<close>, which
  are plain ASCII, and the lines from the first check mark on.
\<close>

definition success_banner :: "string list" where
  "success_banner = ['''', rule70 CHR ''='',
     ''PIPELINE COMPLETED SUCCESSFULLY!'',
     rule70 CHR ''='',
     '''', ''Generated files:'']"

definition generated_files :: "string list" where
  "generated_files =
    [''  '' @ check_mark @ '' data/processed/standardized_items.csv'',
     ''  '' @ check_mark @ '' data/processed/cost_analytics.csv'',
     ''  '' @ check_mark @ '' data/processed/anomalies.csv'',
     '''', ''Data is now ready for the dashboard!'',
     rule70 CHR ''='']"

text \<open>
  The script. \<open>check_mark_error\<close> is what printing the check mark raises on the output
  stream of the process, if its encoding cannot write U+2713 (\<open>None\<close> when it can):
  those prints are outside any \<^verbatim>\<open>try\<close>, so the exception ends the script with its
  traceback and exit code 1, after both entry points have returned.
\<close>

definition run_pipeline ::
  "('w \<Rightarrow> 'w outcome) \<Rightarrow> ('w \<Rightarrow> 'w outcome) \<Rightarrow> exn option \<Rightarrow> 'w \<Rightarrow> 'w run" where
  "run_pipeline run_standardization run_analytics_full check_mark_error w0 =
     (let out0 = banner @ step1_header in
      case run_standardization w0 of
        Raised e w1 \<Rightarrow>
          \<lparr>world = w1,
           stdout = out0 @ [''Error in standardization: '' @ message e],
           stderr = trace e,
           exit_code = 1\<rparr>
      | Escaped code err w1 \<Rightarrow>
          \<lparr>world = w1, stdout = out0, stderr = err, exit_code = code\<rparr>
      | Returned w1 \<Rightarrow>
          (let out1 = out0 @ step2_header in
           case run_analytics_full w1 of
             Raised e w2 \<Rightarrow>
               \<lparr>world = w2,
                stdout = out1 @ [''Error in analytics: '' @ message e],
                stderr = trace e,
                exit_code = 1\<rparr>
           | Escaped code err w2 \<Rightarrow>
               \<lparr>world = w2, stdout = out1, stderr = err, exit_code = code\<rparr>
           | Returned w2 \<Rightarrow>
               (case check_mark_error of
                  None \<Rightarrow>
                    \<lparr>world = w2,
                     stdout = out1 @ success_banner @ generated_files,
                     stderr = [],
                     exit_code = 0\<rparr>
                | Some e \<Rightarrow>
                    \<lparr>world = w2,
                     stdout = out1 @ success_banner,
                     stderr = trace e,
                     exit_code = 1\<rparr>)))"

text \<open>
  The script has reached the end of its stage calls when it prints the first line of
  its closing report.
\<close>

definition reached_done :: "'w run \<Rightarrow> bool" where
  "reached_done r \<longleftrightarrow> ''PIPELINE COMPLETED SUCCESSFULLY!'' \<in> set (stdout r)"

text \<open>
  Modelled from the spec: \<^verbatim>\<open>ai_analytics.run_analytics.main\<close>, which the script imports
  as \<^verbatim>\<open>run_analytics_full\<close>, is not among the sources. The specification has the
  ANALYTICS stage followed by the ANOMALY_DETECTION stage, each stage reading what the
  stage before it persisted, and a stage error ending the run; the script's docstring
  lists cost analytics generation and anomaly detection as its steps 2 and 3, and its
  closing report lists \<^verbatim>\<open>anomalies.csv\<close> among the generated files. So the entry point
  is the analytics stage followed, when that returns, by the anomaly detection stage;
  the two stages themselves are parameters.
\<close>

definition run_analytics_main ::
  "('w \<Rightarrow> 'w outcome) \<Rightarrow> ('w \<Rightarrow> 'w outcome) \<Rightarrow> 'w \<Rightarrow> 'w outcome" where
  "run_analytics_main analytics anomaly_detection w =
     (case analytics w of
        Returned w' \<Rightarrow> anomaly_detection w'
      | Raised e w' \<Rightarrow> Raised e w'
      | Escaped code err w' \<Rightarrow> Escaped code err w')"

text \<open>
  The state machine of the specification, for comparison: the stages run one after the
  other, each once, on the world the one before left, and the first stage that does not
  return ends the sequence.
\<close>

fun spec_run_stages :: "('w \<Rightarrow> 'w outcome) list \<Rightarrow> 'w \<Rightarrow> 'w outcome" where
  "spec_run_stages [] w = Returned w"
| "spec_run_stages (s # ss) w =
     (case s w of
        Returned w' \<Rightarrow> spec_run_stages ss w'
      | Raised e w' \<Rightarrow> Raised e w'
      | Escaped code err w' \<Rightarrow> Escaped code err w')"

fun world_of :: "'w outcome \<Rightarrow> 'w" where
  "world_of (Returned w) = w"
| "world_of (Raised e w) = w"
| "world_of (Escaped code err w) = w"

section \<open>Files, tables and JSON (backend/api.py)\<close>

text \<open>
  A path names a file in one of the directories the program uses, relative to the
  project root: the root itself, \<^verbatim>\<open>data/raw\<close>, \<^verbatim>\<open>data/processed\<close> and
  \<^verbatim>\<open>data/uploads\<close>. The file system maps a path to the bytes of the file, if it
  exists. Reads and writes of existing directories are taken to succeed.
\<close>

datatype path = Project string | Raw string | Processed string | Uploads string

type_synonym bytes = string

type_synonym fs = "path \<rightharpoonup> bytes"

fun path_str :: "path \<Rightarrow> string" where
  "path_str (Project n) = n"
| "path_str (Raw n) = ''data/raw/'' @ n"
| "path_str (Processed n) = ''data/processed/'' @ n"
| "path_str (Uploads n) = ''data/uploads/'' @ n"

text \<open>
  A pandas value: \<open>NaN\<close> (the missing-value float), \<open>PyNone\<close>, or any other value.
  A DataFrame has its column labels and its rows, each row holding one cell per column.
\<close>

datatype 'v cell = NaN | PyNone | Val 'v

record 'v frame =
  columns :: "string list"
  rows :: "'v cell list list"

text \<open>
  What \<^verbatim>\<open>jsonify\<close> writes: \<open>JNaN\<close> is the token \<^verbatim>\<open>NaN\<close> that a float NaN is
  written as, \<open>JNull\<close> is \<^verbatim>\<open>null\<close>.
\<close>

datatype 'v json = JNull | JNaN | JVal 'v | JInt int | JStr string
  | JList "'v json list" | JObj "(string \<times> 'v json) list"

type_synonym 'v response = "'v json \<times> nat"

fun jsonify_cell :: "'v cell \<Rightarrow> 'v json" where
  "jsonify_cell NaN = JNaN"
| "jsonify_cell PyNone = JNull"
| "jsonify_cell (Val v) = JVal v"

definition jsonify_record :: "(string \<times> 'v cell) list \<Rightarrow> 'v json" where
  "jsonify_record r = JObj (map (\<lambda>kv. (fst kv, jsonify_cell (snd kv))) r)"

definition jsonify_records :: "(string \<times> 'v cell) list list \<Rightarrow> 'v json" where
  "jsonify_records rs = JList (map jsonify_record rs)"

fun nan_free :: "'v json \<Rightarrow> bool" where
  "nan_free JNaN = False"
| "nan_free (JList xs) = (\<forall>x\<in>set xs. nan_free x)"
| "nan_free (JObj kvs) = (\<forall>kv\<in>set kvs. nan_free (snd kv))"
| "nan_free _ = True"

text \<open>
  The pandas and Python library operations the program calls, as parameters:
  \<^item> \<open>parse_csv\<close>: \<^verbatim>\<open>pd.read_csv\<close> on the bytes of an existing, non-empty file;
  \<^item> \<open>merge_left\<close>: \<^verbatim>\<open>left.merge(right, on=key, how='left')\<close>;
  \<^item> \<open>str_contains\<close>: \<^verbatim>\<open>column.str.contains(pattern, case=False, na=False)\<close>,
    which raises on an invalid regular expression or a column without strings;
  \<^item> \<open>nunique\<close>, \<open>mean\<close>: the Series methods;
  \<^item> \<open>value_counts\<close>: \<^verbatim>\<open>column.value_counts().to_dict()\<close>, its keys as JSON
    writes them;
  \<^item> \<open>to_float\<close>: Python's \<^verbatim>\<open>float(x)\<close>;
  \<^item> \<open>supplier_agg\<close>: the \<^verbatim>\<open>groupby('supplier_name').agg(...).reset_index()\<close>
    call of the suppliers view.
\<close>

record 'v pandas =
  parse_csv :: "bytes \<Rightarrow> exn + 'v frame"
  merge_left :: "'v frame \<Rightarrow> 'v frame \<Rightarrow> string \<Rightarrow> exn + 'v frame"
  str_contains :: "string \<Rightarrow> 'v cell list \<Rightarrow> exn + bool list"
  nunique :: "'v cell list \<Rightarrow> int"
  mean :: "'v cell list \<Rightarrow> exn + 'v cell"
  value_counts :: "'v cell list \<Rightarrow> (string \<times> int) list"
  to_float :: "'v json \<Rightarrow> exn + 'v json"
  supplier_agg :: "'v frame \<Rightarrow> exn + 'v frame"

text \<open>
  Sequencing of statements that may raise: the first exception ends the sequence.
\<close>

definition and_then :: "exn + 'a \<Rightarrow> ('a \<Rightarrow> exn + 'b) \<Rightarrow> exn + 'b" where
  "and_then m f = (case m of Inl e \<Rightarrow> Inl e | Inr x \<Rightarrow> f x)"

text \<open>
  \<^verbatim>\<open>pd.read_csv(path)\<close>: a missing file raises \<^verbatim>\<open>FileNotFoundError\<close>, a file
  with no bytes raises \<^verbatim>\<open>EmptyDataError\<close>; anything else is up to the parser.
\<close>

definition pd_read_csv :: "'v pandas \<Rightarrow> fs \<Rightarrow> path \<Rightarrow> exn + 'v frame" where
  "pd_read_csv pd fs p =
     (case fs p of
        None \<Rightarrow>
          Inl (Exn FileNotFoundError (''[Errno 2] No such file or directory: '' @ path_str p) [])
      | Some b \<Rightarrow>
          if b = [] then Inl (Exn EmptyDataError ''No columns to parse from file'' [])
          else parse_csv pd b)"

text \<open>\<^verbatim>\<open>df[name]\<close>: the cells of one column, or \<^verbatim>\<open>KeyError\<close>.\<close>

definition cell_at :: "string list \<Rightarrow> 'v cell list \<Rightarrow> string \<Rightarrow> 'v cell" where
  "cell_at cols r name = (case map_of (zip cols r) name of Some c \<Rightarrow> c | None \<Rightarrow> NaN)"

definition getitem :: "'v frame \<Rightarrow> string \<Rightarrow> exn + 'v cell list" where
  "getitem df name =
     (if name \<in> set (columns df) then Inr (map (\<lambda>r. cell_at (columns df) r name) (rows df))
      else Inl (Exn KeyError name []))"

text \<open>\<^verbatim>\<open>df[[names]]\<close>: the sub-table of the named columns, or \<^verbatim>\<open>KeyError\<close>.\<close>

definition select_columns :: "'v frame \<Rightarrow> string list \<Rightarrow> exn + 'v frame" where
  "select_columns df names =
     (case filter (\<lambda>n. n \<notin> set (columns df)) names of
        [] \<Rightarrow> Inr \<lparr>columns = names,
                   rows = map (\<lambda>r. map (cell_at (columns df) r) names) (rows df)\<rparr>
      | n # _ \<Rightarrow> Inl (Exn KeyError n []))"

text \<open>\<^verbatim>\<open>df.rename(columns=mapping)\<close>: labels not in the mapping stay.\<close>

definition rename_columns :: "'v frame \<Rightarrow> (string \<times> string) list \<Rightarrow> 'v frame" where
  "rename_columns df mapping =
     df\<lparr>columns := map (\<lambda>c. case map_of mapping c of Some c' \<Rightarrow> c' | None \<Rightarrow> c) (columns df)\<rparr>"

text \<open>\<^verbatim>\<open>df.replace({np.nan: None})\<close>: every NaN cell becomes None.\<close>

fun replace_nan :: "'v cell \<Rightarrow> 'v cell" where
  "replace_nan NaN = PyNone"
| "replace_nan c = c"

definition replace_nan_none :: "'v frame \<Rightarrow> 'v frame" where
  "replace_nan_none df = df\<lparr>rows := map (map replace_nan) (rows df)\<rparr>"

text \<open>\<^verbatim>\<open>df.to_dict('records')\<close>: one dictionary per row, keyed by column label.\<close>

definition to_dict_records :: "'v frame \<Rightarrow> (string \<times> 'v cell) list list" where
  "to_dict_records df = map (\<lambda>r. zip (columns df) r) (rows df)"

text \<open>
  Python's slice \<^verbatim>\<open>xs[start:stop]\<close> on integers: a negative bound counts from the
  end, and bounds are clipped to the list.
\<close>

definition slice_bound :: "int \<Rightarrow> int \<Rightarrow> int" where
  "slice_bound n i = (if i < 0 then max 0 (n + i) else min i n)"

definition py_slice :: "'a list \<Rightarrow> int \<Rightarrow> int \<Rightarrow> 'a list" where
  "py_slice xs start stop =
     (let n = int (length xs); s = slice_bound n start; e = slice_bound n stop
      in take (nat (e - s)) (drop (nat s) xs))"

definition iloc :: "'v frame \<Rightarrow> int \<Rightarrow> int \<Rightarrow> 'v frame" where
  "iloc df start stop = df\<lparr>rows := py_slice (rows df) start stop\<rparr>"

text \<open>\<^verbatim>\<open>df.head(n)\<close> for a non-negative \<open>n\<close>.\<close>

definition head :: "'v frame \<Rightarrow> nat \<Rightarrow> 'v frame" where
  "head df n = df\<lparr>rows := take n (rows df)\<rparr>"

text \<open>\<^verbatim>\<open>df[mask]\<close>: the rows where the mask is true.\<close>

definition mask_rows :: "'v frame \<Rightarrow> bool list \<Rightarrow> 'v frame" where
  "mask_rows df flags = df\<lparr>rows := map fst (filter snd (zip (rows df) flags))\<rparr>"

text \<open>\<^verbatim>\<open>sep.join(xs)\<close>.\<close>

fun join :: "string \<Rightarrow> string list \<Rightarrow> string" where
  "join sep [] = []"
| "join sep [x] = x"
| "join sep (x # y # ys) = x @ sep @ join sep (y # ys)"

text \<open>\<^verbatim>\<open>shutil.copy(src, dst)\<close>.\<close>

definition copy_file :: "fs \<Rightarrow> path \<Rightarrow> path \<Rightarrow> exn + fs" where
  "copy_file fs src dst =
     (case fs src of
        None \<Rightarrow>
          Inl (Exn FileNotFoundError (''[Errno 2] No such file or directory: '' @ path_str src) [])
      | Some b \<Rightarrow> Inr (fs(dst \<mapsto> b)))"

section \<open>The served data and its loader (backend/api.py)\<close>

text \<open>
  The three module-level variables \<^verbatim>\<open>standardized_df\<close>, \<^verbatim>\<open>analytics_df\<close> and
  \<^verbatim>\<open>anomalies_df\<close>; each is a table or \<^verbatim>\<open>None\<close>.
\<close>

record 'v cache =
  standardized_df :: "'v frame option"
  analytics_df :: "'v frame option"
  anomalies_df :: "'v frame option"

definition not_loaded :: "'v cache" where
  "not_loaded = \<lparr>standardized_df = None, analytics_df = None, anomalies_df = None\<rparr>"

definition raw_data_path :: path where
  "raw_data_path = Raw ''purchase_orders_raw.csv''"

definition standardized_path :: path where
  "standardized_path = Processed ''standardized_items.csv''"

definition analytics_path :: path where
  "analytics_path = Processed ''cost_analytics.csv''"

definition anomalies_path :: path where
  "anomalies_path = Processed ''anomalies.csv''"

text \<open>
  \<^verbatim>\<open>load_data\<close>: the whole body is inside \<^verbatim>\<open>try\<close> (\<open>load_frames\<close>), and
  the handler returns \<^verbatim>\<open>None, None, None\<close>, whichever statement raised.
\<close>

definition load_frames :: "'v pandas \<Rightarrow> fs \<Rightarrow> exn + 'v cache" where
  "load_frames pd fs =
     and_then (pd_read_csv pd fs standardized_path) (\<lambda>standardized.
     and_then (pd_read_csv pd fs analytics_path) (\<lambda>analytics.
     and_then (pd_read_csv pd fs anomalies_path) (\<lambda>anomalies.
     and_then (pd_read_csv pd fs raw_data_path) (\<lambda>raw_data.
     and_then (select_columns raw_data
                 [''po_id'', ''unit_price'', ''supplier'', ''region'', ''quantity'', ''unit'',
                  ''po_date'']) (\<lambda>selected.
     and_then (merge_left pd standardized selected ''po_id'') (\<lambda>merged.
       Inr \<lparr>standardized_df =
                Some (rename_columns merged
                        [(''supplier'', ''supplier_name''),
                         (''confidence_score'', ''standardization_confidence'')]),
              analytics_df = Some analytics,
              anomalies_df = Some anomalies\<rparr>))))))"

definition load_data :: "'v pandas \<Rightarrow> fs \<Rightarrow> 'v cache" where
  "load_data pd fs = (case load_frames pd fs of Inl e \<Rightarrow> not_loaded | Inr c \<Rightarrow> c)"

section \<open>The read-only views (backend/api.py)\<close>

text \<open>
  A view returns a response (the JSON body and the HTTP status), or raises: \<open>Inl\<close> is
  an exception that leaves the view function.
\<close>

definition error_response :: "string \<Rightarrow> nat \<Rightarrow> 'v response" where
  "error_response msg status = (JObj [(''error'', JStr msg)], status)"

definition get_dashboard_stats :: "'v pandas \<Rightarrow> 'v cache \<Rightarrow> exn + 'v response" where
  "get_dashboard_stats pd c =
     (case (standardized_df c, analytics_df c) of
        (Some sdf, Some adf) \<Rightarrow>
          and_then (getitem sdf ''supplier_name'') (\<lambda>suppliers.
          and_then (getitem sdf ''unit_price'') (\<lambda>prices.
          and_then (mean pd prices) (\<lambda>avg_unit_price.
          and_then (getitem sdf ''standardization_confidence'') (\<lambda>confidences.
          and_then (mean pd confidences) (\<lambda>avg_confidence.
          and_then (if ''category'' \<in> set (columns sdf)
                    then and_then (getitem sdf ''category'') (\<lambda>cats. Inr (nunique pd cats))
                    else Inr 0) (\<lambda>total_categories.
            Inr (JObj
                   [(''total_items'', JInt (int (length (rows sdf)))),
                    (''total_suppliers'', JInt (nunique pd suppliers)),
                    (''avg_unit_price'', jsonify_cell avg_unit_price),
                    (''avg_confidence'', jsonify_cell avg_confidence),
                    (''items_with_anomalies'',
                       JInt (case anomalies_df c of
                               Some a \<Rightarrow> int (length (rows a)) | None \<Rightarrow> 0)),
                    (''total_categories'', JInt total_categories)],
                 200)))))))
      | _ \<Rightarrow> Inr (error_response ''Data not loaded'' 500))"

text \<open>
  The items view. \<open>page\<close>, \<open>per_page\<close> and \<open>search\<close> are the request arguments after
  Flask has parsed them (defaults 1, 20 and the empty string). Python's \<^verbatim>\<open>//\<close> is
  floor division, as \<open>div\<close> on \<open>int\<close>, and raises on a zero divisor.
\<close>

record items_request =
  page :: int
  per_page :: int
  search :: string

definition search_filter :: "'v pandas \<Rightarrow> 'v frame \<Rightarrow> string \<Rightarrow> exn + 'v frame" where
  "search_filter pd df s =
     and_then (getitem df ''canonical_item_name'') (\<lambda>names.
     and_then (str_contains pd s names) (\<lambda>by_name.
     and_then (getitem df ''supplier_name'') (\<lambda>suppliers.
     and_then (str_contains pd s suppliers) (\<lambda>by_supplier.
       Inr (mask_rows df (map2 (\<or>) by_name by_supplier))))))"

text \<open>The search filter is applied when \<^verbatim>\<open>search\<close> is not empty.\<close>

definition filtered :: "'v pandas \<Rightarrow> 'v frame \<Rightarrow> string \<Rightarrow> exn + 'v frame" where
  "filtered pd df s = (if s \<noteq> [] then search_filter pd df s else Inr df)"

definition get_items :: "'v pandas \<Rightarrow> 'v cache \<Rightarrow> items_request \<Rightarrow> exn + 'v response" where
  "get_items pd c req =
     (case standardized_df c of
        None \<Rightarrow> Inr (error_response ''Data not loaded'' 500)
      | Some sdf \<Rightarrow>
          and_then (filtered pd sdf (search req)) (\<lambda>df.
               (let total = int (length (rows df));
                    start = (page req - 1) * per_page req;
                    stop = start + per_page req;
                    items = to_dict_records (replace_nan_none (iloc df start stop))
                in if per_page req = 0
                   then Inl (Exn ZeroDivisionError ''integer division or modulo by zero'' [])
                   else Inr (JObj
                               [(''items'', jsonify_records items),
                                (''total'', JInt total),
                                (''page'', JInt (page req)),
                                (''per_page'', JInt (per_page req)),
                                (''pages'', JInt ((total + per_page req - 1) div per_page req))],
                             200))))"

definition get_analytics :: "'v cache \<Rightarrow> exn + 'v response" where
  "get_analytics c =
     (case analytics_df c of
        None \<Rightarrow> Inr (error_response ''Data not loaded'' 500)
      | Some adf \<Rightarrow> Inr (jsonify_records (to_dict_records (replace_nan_none adf)), 200))"

definition get_anomalies :: "'v cache \<Rightarrow> exn + 'v response" where
  "get_anomalies c =
     (case anomalies_df c of
        None \<Rightarrow> Inr (error_response ''Data not loaded'' 500)
      | Some adf \<Rightarrow> Inr (jsonify_records (to_dict_records (replace_nan_none adf)), 200))"

text \<open>\<^verbatim>\<open>row.get(name, default)\<close> on a row of a table.\<close>

definition row_get :: "string list \<Rightarrow> 'v cell list \<Rightarrow> string \<Rightarrow> 'v json \<Rightarrow> 'v json" where
  "row_get cols r name dflt =
     (case map_of (zip cols r) name of Some c \<Rightarrow> jsonify_cell c | None \<Rightarrow> dflt)"

definition trend_data :: "'v pandas \<Rightarrow> string list \<Rightarrow> 'v cell list \<Rightarrow> exn + 'v json" where
  "trend_data pd cols r =
     and_then (to_float pd (row_get cols r ''avg_price'' (JInt 0))) (\<lambda>avg_price.
     and_then (to_float pd (row_get cols r ''min_price'' (JInt 0))) (\<lambda>min_price.
     and_then (to_float pd (row_get cols r ''max_price'' (JInt 0))) (\<lambda>max_price.
     and_then (to_float pd (row_get cols r ''price_std'' (JInt 0))) (\<lambda>price_variance.
       Inr (JObj
              [(''item_name'', row_get cols r ''canonical_item_name'' (JStr ''Unknown'')),
               (''trend_direction'', row_get cols r ''trend_direction'' (JStr ''stable'')),
               (''avg_price'', avg_price),
               (''min_price'', min_price),
               (''max_price'', max_price),
               (''price_variance'', price_variance)])))))"

text \<open>The loop over the rows: the first exception ends it.\<close>

fun collect :: "('a \<Rightarrow> exn + 'b) \<Rightarrow> 'a list \<Rightarrow> exn + 'b list" where
  "collect f [] = Inr []"
| "collect f (x # xs) =
     and_then (f x) (\<lambda>y. and_then (collect f xs) (\<lambda>ys. Inr (y # ys)))"

definition get_price_trends :: "'v pandas \<Rightarrow> 'v cache \<Rightarrow> exn + 'v response" where
  "get_price_trends pd c =
     (case analytics_df c of
        None \<Rightarrow> Inr (error_response ''Data not loaded'' 500)
      | Some adf \<Rightarrow>
          and_then (collect (trend_data pd (columns adf)) (rows (head adf 10)))
            (\<lambda>trends. Inr (JList trends, 200)))"

definition get_suppliers :: "'v pandas \<Rightarrow> 'v cache \<Rightarrow> exn + 'v response" where
  "get_suppliers pd c =
     (case standardized_df c of
        None \<Rightarrow> Inr (error_response ''Data not loaded'' 500)
      | Some sdf \<Rightarrow>
          and_then (supplier_agg pd sdf) (\<lambda>stats.
            (let supplier_stats =
                   stats\<lparr>columns := [''supplier'', ''avg_price'', ''min_price'', ''max_price'',
                                      ''item_count'', ''avg_confidence'']\<rparr>
             in Inr (jsonify_records
                       (to_dict_records (head (replace_nan_none supplier_stats) 10)),
                     200))))"

definition get_categories :: "'v pandas \<Rightarrow> 'v cache \<Rightarrow> exn + 'v response" where
  "get_categories pd c =
     (case standardized_df c of
        None \<Rightarrow> Inr (error_response ''Data not loaded or categories not available'' 500)
      | Some sdf \<Rightarrow>
          if ''category'' \<notin> set (columns sdf)
          then Inr (error_response ''Data not loaded or categories not available'' 500)
          else and_then (getitem sdf ''category'') (\<lambda>cats.
                 Inr (JObj (map (\<lambda>kv. (fst kv, JInt (snd kv))) (value_counts pd cats)),
                      200)))"

section \<open>Upload (backend/api.py)\<close>

text \<open>
  \<^verbatim>\<open>str.lower()\<close> on the characters that matter for a file extension, and
  \<^verbatim>\<open>filename.rsplit('.', 1)[1]\<close>, the part after the last dot.
\<close>

definition lower_char :: "char \<Rightarrow> char" where
  "lower_char c =
     (case map_of (zip ''ABCDEFGHIJKLMNOPQRSTUVWXYZ'' ''abcdefghijklmnopqrstuvwxyz'') c of
        Some l \<Rightarrow> l | None \<Rightarrow> c)"

definition after_last_dot :: "string \<Rightarrow> string" where
  "after_last_dot s = rev (takeWhile (\<lambda>c. c \<noteq> CHR ''.'') (rev s))"

definition ALLOWED_EXTENSIONS :: "string set" where
  "ALLOWED_EXTENSIONS = {''csv''}"

definition allowed_file :: "string \<Rightarrow> bool" where
  "allowed_file filename \<longleftrightarrow>
     CHR ''.'' \<in> set filename \<and> map lower_char (after_last_dot filename) \<in> ALLOWED_EXTENSIONS"

record upload =
  filename :: string
  content :: bytes

definition required_columns :: "string list" where
  "required_columns = [''po_id'', ''item_description'', ''unit_price'', ''quantity'',
     ''unit'', ''po_date'', ''region'', ''department'', ''supplier'']"

definition backup_path :: "string \<Rightarrow> path" where
  "backup_path timestamp = Raw (''purchase_orders_raw_backup_'' @ timestamp @ ''.csv'')"

text \<open>\<^verbatim>\<open>os.remove\<close>, called on the file just saved.\<close>

definition remove_file :: "fs \<Rightarrow> path \<Rightarrow> fs" where
  "remove_file fs p = fs(p := None)"

text \<open>
  The inner handler of \<^verbatim>\<open>upload_file\<close>: remove the saved file if it exists and
  answer 400.
\<close>

definition invalid_csv :: "fs \<Rightarrow> path \<Rightarrow> exn \<Rightarrow> 'v response \<times> fs" where
  "invalid_csv fs filepath e =
     (error_response (''Invalid CSV format: '' @ message e) 400, remove_file fs filepath)"

text \<open>
  A request to the upload route: the length of its body, and the files its form
  carries. \<^verbatim>\<open>request.files\<close> parses the body on first use, and raises
  \<^verbatim>\<open>RequestEntityTooLarge\<close> when the body is longer than the configured
  \<^verbatim>\<open>MAX_CONTENT_LENGTH\<close>.
\<close>

record request =
  content_length :: nat
  files :: "string \<rightharpoonup> upload"

definition MAX_CONTENT_LENGTH :: nat where
  "MAX_CONTENT_LENGTH = 16 * 1024 * 1024"

definition request_files :: "request \<Rightarrow> exn + (string \<rightharpoonup> upload)" where
  "request_files req =
     (if MAX_CONTENT_LENGTH < content_length req
      then Inl (Exn RequestEntityTooLarge
                  (''413 Request Entity Too Large: ''
                     @ ''The data value transmitted exceeds the capacity limit.'') [])
      else Inr (files req))"

text \<open>
  The body of the outer \<^verbatim>\<open>try\<close> of \<^verbatim>\<open>upload_file\<close>, once
  \<^verbatim>\<open>request.files\<close> has been read. \<open>secure_filename\<close> is the werkzeug function
  and \<open>timestamp\<close> the formatted \<^verbatim>\<open>datetime.now()\<close>, read once. The result is the
  response and the file system the request leaves. Saving, copying and removing files
  in existing directories do not raise here; a file name is a single path component
  (\<^verbatim>\<open>secure_filename\<close> removes separators).
\<close>

definition upload_body ::
  "'v pandas \<Rightarrow> (string \<Rightarrow> string) \<Rightarrow> string \<Rightarrow> (string \<rightharpoonup> upload) \<Rightarrow> fs
     \<Rightarrow> 'v response \<times> fs" where
  "upload_body pd secure_filename timestamp request_files_value fs =
     (case request_files_value ''file'' of
        None \<Rightarrow> (error_response ''No file provided'' 400, fs)
      | Some file \<Rightarrow>
          if filename file = [] then (error_response ''No file selected'' 400, fs)
          else if \<not> allowed_file (filename file)
          then (error_response ''Only CSV files are allowed'' 400, fs)
          else
            (let saved_filename =
                   ''upload_'' @ timestamp @ ''_'' @ secure_filename (filename file);
                 filepath = Uploads saved_filename;
                 fs1 = fs(filepath \<mapsto> content file)
             in case pd_read_csv pd fs1 filepath of
                  Inl e \<Rightarrow> invalid_csv fs1 filepath e
                | Inr df \<Rightarrow>
                    (let missing_columns =
                           filter (\<lambda>col. col \<notin> set (columns df)) required_columns
                     in if missing_columns \<noteq> []
                        then ((JObj
                                 [(''error'',
                                     JStr (''Missing required columns: ''
                                             @ join '', '' missing_columns)),
                                  (''required_columns'', JList (map JStr required_columns))],
                               400),
                              remove_file fs1 filepath)
                        else
                          (case (if fs1 raw_data_path \<noteq> None
                                 then copy_file fs1 raw_data_path (backup_path timestamp)
                                 else Inr fs1)
                             of Inl e \<Rightarrow> invalid_csv fs1 filepath e
                           | Inr fs2 \<Rightarrow>
                               (case copy_file fs2 filepath raw_data_path of
                                  Inl e \<Rightarrow> invalid_csv fs2 filepath e
                                | Inr fs3 \<Rightarrow>
                                    ((JObj
                                        [(''message'', JStr ''File uploaded successfully''),
                                         (''filename'', JStr saved_filename),
                                         (''rows'', JInt (int (length (rows df)))),
                                         (''columns'', JList (map JStr (columns df)))],
                                      200),
                                     fs3))))))"

text \<open>
  \<^verbatim>\<open>upload_file\<close>: the outer \<^verbatim>\<open>try\<close>. Its handler answers status 500 with
  \<^verbatim>\<open>Upload failed: \<close> and the exception's message, and nothing has been written
  when \<^verbatim>\<open>request.files\<close> raises.
\<close>

definition upload_file ::
  "'v pandas \<Rightarrow> (string \<Rightarrow> string) \<Rightarrow> string \<Rightarrow> request \<Rightarrow> fs
     \<Rightarrow> 'v response \<times> fs" where
  "upload_file pd secure_filename timestamp req fs =
     (case request_files req of
        Inl e \<Rightarrow> (error_response (''Upload failed: '' @ message e) 500, fs)
      | Inr request_files_value \<Rightarrow>
          upload_body pd secure_filename timestamp request_files_value fs)"

section \<open>Processing trigger (backend/api.py)\<close>

text \<open>
  What \<^verbatim>\<open>subprocess.run\<close> hands back: a completed process with its return code and
  captured streams, the \<^verbatim>\<open>TimeoutExpired\<close> exception, or another exception. The
  call is a parameter: it takes the arguments the program passes and the file system,
  and returns the outcome and the file system the child process left.
\<close>

record completed_process =
  returncode :: int
  proc_stdout :: string
  proc_stderr :: string

datatype run_outcome = Completed completed_process | TimeoutExpired | RunError exn

record run_args =
  script :: path
  capture_output :: bool
  timeout :: nat

definition pipeline_script :: path where
  "pipeline_script = Project ''run_pipeline.py''"

definition pipeline_call :: run_args where
  "pipeline_call = \<lparr>script = pipeline_script, capture_output = True, timeout = 300\<rparr>"

definition count_rows :: "'v frame option \<Rightarrow> int" where
  "count_rows d = (case d of Some df \<Rightarrow> int (length (rows df)) | None \<Rightarrow> 0)"

text \<open>
  \<^verbatim>\<open>process_data\<close>: the response, the three module-level tables after the request,
  and the file system after it.
\<close>

definition process_data ::
  "'v pandas \<Rightarrow> (run_args \<Rightarrow> fs \<Rightarrow> run_outcome \<times> fs) \<Rightarrow> 'v cache \<Rightarrow> fs
     \<Rightarrow> 'v response \<times> 'v cache \<times> fs" where
  "process_data pd subprocess_run c fs =
     (if fs pipeline_script = None
      then (error_response (''Pipeline script not found at '' @ path_str pipeline_script) 500,
            c, fs)
      else
        (case subprocess_run pipeline_call fs of
           (Completed result, fs') \<Rightarrow>
             if returncode result = 0
             then (let c' = load_data pd fs'
                   in ((JObj
                          [(''message'', JStr ''Data processed successfully''),
                           (''output'', JStr (proc_stdout result)),
                           (''standardized_items'', JInt (count_rows (standardized_df c'))),
                           (''analytics_records'', JInt (count_rows (analytics_df c'))),
                           (''anomalies_found'', JInt (count_rows (anomalies_df c')))],
                        200),
                       c', fs'))
             else ((JObj
                      [(''error'', JStr ''Processing failed''),
                       (''output'', JStr (proc_stdout result)),
                       (''error_details'', JStr (proc_stderr result))],
                    500),
                   c, fs')
         | (TimeoutExpired, fs') \<Rightarrow>
             (error_response ''Processing timeout (max 5 minutes)'' 500, c, fs')
         | (RunError e, fs') \<Rightarrow>
             ((JObj
                 [(''error'', JStr (''Processing failed: '' @ message e)),
                  (''traceback'', JStr (concat (trace e)))],
               500),
              c, fs')))"

section \<open>The dashboard's loader (frontend/app_enhanced.py)\<close>

text \<open>
  \<^verbatim>\<open>load_data\<close> of the dashboard either returns the four tables or, in its outer
  handler, shows an error and stops the script (\<^verbatim>\<open>st.error\<close>, \<^verbatim>\<open>st.stop\<close>).
\<close>

datatype 'v loaded =
  Loaded "'v frame" "'v frame" "'v frame" "'v frame"
  | Stopped string

definition empty_anomalies :: "'v frame" where
  "empty_anomalies =
     \<lparr>columns = [''po_id'', ''item_code'', ''unit_price'', ''expected_price'',
                  ''anomaly_flag'', ''anomaly_reason''],
      rows = []\<rparr>"

text \<open>The inner \<^verbatim>\<open>try\<close>: only the two named exception classes are handled.\<close>

definition read_anomalies :: "'v pandas \<Rightarrow> fs \<Rightarrow> exn + 'v frame" where
  "read_anomalies pd fs =
     (case pd_read_csv pd fs anomalies_path of
        Inr anomalies \<Rightarrow> Inr anomalies
      | Inl e \<Rightarrow>
          if cls e = EmptyDataError \<or> cls e = FileNotFoundError then Inr empty_anomalies
          else Inl e)"

definition frontend_load_frames :: "'v pandas \<Rightarrow> fs \<Rightarrow> exn + 'v loaded" where
  "frontend_load_frames pd fs =
     and_then (pd_read_csv pd fs raw_data_path) (\<lambda>raw_df.
     and_then (pd_read_csv pd fs standardized_path) (\<lambda>standardized.
     and_then (pd_read_csv pd fs analytics_path) (\<lambda>analytics.
     and_then (read_anomalies pd fs) (\<lambda>anomalies.
       Inr (Loaded raw_df standardized analytics anomalies)))))"

definition frontend_load_data :: "'v pandas \<Rightarrow> fs \<Rightarrow> 'v loaded" where
  "frontend_load_data pd fs =
     (case frontend_load_frames pd fs of
        Inl e \<Rightarrow> Stopped (''Error loading data: '' @ message e)
      | Inr r \<Rightarrow> r)"

section \<open>Specification-side definitions and example inputs\<close>

text \<open>
  How the specification wants a missing value written: NaN and None both as
  \<^verbatim>\<open>null\<close>. It is compared below with what the views write.
\<close>

fun spec_render_cell :: "'v cell \<Rightarrow> 'v json" where
  "spec_render_cell NaN = JNull"
| "spec_render_cell PyNone = JNull"
| "spec_render_cell (Val v) = JVal v"

definition spec_render_row :: "string list \<Rightarrow> 'v cell list \<Rightarrow> 'v json" where
  "spec_render_row cols r = JObj (zip cols (map spec_render_cell r))"

text \<open>The response of the trigger that stands for a timeout.\<close>

definition timeout_response :: "'v response" where
  "timeout_response = error_response ''Processing timeout (max 5 minutes)'' 500"

text \<open>
  Example inputs. \<open>counting_stage\<close> is a stage on a world that counts the stages run.
  \<open>example_parse\<close> reads a header-only CSV: the labels between the
  commas of its single line, and no rows. \<open>example_pandas\<close> uses it and gives the other
  library operations simple stand-ins.
\<close>

definition counting_stage :: "nat \<Rightarrow> nat outcome" where
  "counting_stage w = Returned (Suc w)"

fun split_commas :: "string \<Rightarrow> string list" where
  "split_commas [] = [[]]"
| "split_commas (c # cs) =
     (if c = CHR '','' then [] # split_commas cs
      else (case split_commas cs of [] \<Rightarrow> [[c]] | w # ws \<Rightarrow> (c # w) # ws))"

definition example_parse :: "bytes \<Rightarrow> exn + nat frame" where
  "example_parse b = Inr \<lparr>columns = split_commas b, rows = []\<rparr>"

definition example_pandas :: "nat pandas" where
  "example_pandas =
     \<lparr>parse_csv = example_parse,
      merge_left = (\<lambda>left right key. Inr left),
      str_contains = (\<lambda>pattern col. Inr (map (\<lambda>c. c = Val 1) col)),
      nunique = (\<lambda>col. int (length (remdups col))),
      mean = (\<lambda>col. Inr NaN),
      value_counts = (\<lambda>col. []),
      to_float = Inr,
      supplier_agg = Inr\<rparr>"

definition example_timestamp :: string where
  "example_timestamp = ''20240101_120000''"

definition full_header :: bytes where
  "full_header = ''po_id,item_description,unit_price,quantity,unit,po_date,region,department,supplier''"


definition example_files :: "bytes \<Rightarrow> string \<rightharpoonup> upload" where
  "example_files b = [''file'' \<mapsto> \<lparr>filename = ''orders.csv'', content = b\<rparr>]"

text \<open>
  A request that carries the given bytes as \<^verbatim>\<open>orders.csv\<close> in a body of 4096
  bytes, and one that carries them in a body one byte over the limit.
\<close>

definition example_request :: "bytes \<Rightarrow> request" where
  "example_request b = \<lparr>content_length = 4096, files = example_files b\<rparr>"


text \<open>An HTTP status of the 5xx class tells the caller that the server failed.\<close>

definition server_failure :: "'v response \<Rightarrow> bool" where
  "server_failure r \<longleftrightarrow> 500 \<le> snd r"

text \<open>A disk holding an earlier raw-data file and the pipeline script.\<close>

definition example_fs :: fs where
  "example_fs = [raw_data_path \<mapsto> ''po_id'', pipeline_script \<mapsto> ''print()'']"

text \<open>A disk on which all four data files can be read.\<close>

definition loaded_fs :: fs where
  "loaded_fs =
     [raw_data_path \<mapsto> ''po_id,unit_price,supplier,region,quantity,unit,po_date'',
      standardized_path \<mapsto> ''po_id,canonical_item_name,confidence_score'',
      analytics_path \<mapsto> ''canonical_item_name,region,avg_price'',
      anomalies_path \<mapsto> ''po_id,item_code'',
      pipeline_script \<mapsto> ''print()'']"

text \<open>A child process that ends at once with the given return code and streams.\<close>

definition exits_with :: "int \<Rightarrow> string \<Rightarrow> string \<Rightarrow> run_args \<Rightarrow> fs \<Rightarrow> run_outcome \<times> fs" where
  "exits_with rc out err args fs =
     (Completed \<lparr>returncode = rc, proc_stdout = out, proc_stderr = err\<rparr>, fs)"

text \<open>A child process that is killed when the timeout it was given passes.\<close>

definition times_out :: "run_args \<Rightarrow> fs \<Rightarrow> run_outcome \<times> fs" where
  "times_out args fs = (TimeoutExpired, fs)"

text \<open>
  A child process that ends with return code 1 when it is given 300 seconds, and is
  killed by the timeout when it is given any other time.
\<close>

definition fails_within_300 :: "run_args \<Rightarrow> fs \<Rightarrow> run_outcome \<times> fs" where
  "fails_within_300 args fs =
     (if timeout args = 300 then exits_with 1 ''out'' ''err'' args fs else times_out args fs)"

text \<open>A table of three rows with a missing value, and the tables served from it.\<close>

definition example_table :: "nat frame" where
  "example_table =
     \<lparr>columns = [''canonical_item_name'', ''supplier_name''],
      rows = [[Val 1, NaN], [Val 2, Val 3], [NaN, Val 1]]\<rparr>"

definition example_cache :: "nat cache" where
  "example_cache =
     \<lparr>standardized_df = Some example_table,
      analytics_df = Some example_table,
      anomalies_df = Some example_table\<rparr>"

section \<open>Results about the orchestrator\<close>

lemma success_line_in_banner: "''PIPELINE COMPLETED SUCCESSFULLY!'' \<in> set success_banner"
  by (simp add: success_banner_def)

lemma rule70_not_success_line: "rule70 c \<noteq> ''PIPELINE COMPLETED SUCCESSFULLY!''"
proof
  assume "rule70 c = ''PIPELINE COMPLETED SUCCESSFULLY!''"
  then have "length (rule70 c) = length ''PIPELINE COMPLETED SUCCESSFULLY!''"
    by (rule arg_cong)
  then show False
    by (simp add: rule70_def)
qed

lemma success_line_not_before:
  "''PIPELINE COMPLETED SUCCESSFULLY!'' \<notin> set banner"
  "''PIPELINE COMPLETED SUCCESSFULLY!'' \<notin> set step1_header"
  "''PIPELINE COMPLETED SUCCESSFULLY!'' \<notin> set step2_header"
  using rule70_not_success_line [of "CHR ''=''"] rule70_not_success_line [of "CHR ''-''"]
  by (auto simp: banner_def step1_header_def step2_header_def)

lemma reached_done_cases:
  "reached_done (run_pipeline rs ra cme w0) \<longleftrightarrow>
     (\<exists>w1 w2. rs w0 = Returned w1 \<and> ra w1 = Returned w2)"
  by (auto simp: reached_done_def run_pipeline_def Let_def success_line_not_before
      success_line_in_banner split: outcome.splits option.splits)

lemma world_run_pipeline:
  "world (run_pipeline rs ra cme w0) = world_of (spec_run_stages [rs, ra] w0)"
  by (simp add: run_pipeline_def Let_def split: outcome.splits option.splits)

lemma run_analytics_main_stages:
  "run_analytics_main analytics anomaly_detection w =
     spec_run_stages [analytics, anomaly_detection] w"
  by (simp add: run_analytics_main_def split: outcome.splits)

lemma run_analytics_main_returned:
  "run_analytics_main analytics anomaly_detection w1 = Returned w3 \<longleftrightarrow>
     (\<exists>w2. analytics w1 = Returned w2 \<and> anomaly_detection w2 = Returned w3)"
  by (cases "analytics w1") (simp_all add: run_analytics_main_def)

lemma spec_three_stages_returned:
  "spec_run_stages [a, b, c] w0 = Returned w3 \<longleftrightarrow>
     (\<exists>w1 w2. a w0 = Returned w1 \<and> b w1 = Returned w2 \<and> c w2 = Returned w3)"
proof (cases "a w0")
  case (Returned w1)
  then show ?thesis
  proof (cases "b w1")
    case (Returned w2)
    with \<open>a w0 = Returned w1\<close> show ?thesis
      by (cases "c w2") simp_all
  qed simp_all
qed simp_all

text \<open>
  When the script's exit code is 0: it reached its closing report and could print it,
  or an entry point itself ended the process with exit code 0.
\<close>

lemma run_pipeline_exit_zero:
  "exit_code (run_pipeline rs ra cme w0) = 0 \<longleftrightarrow>
     (reached_done (run_pipeline rs ra cme w0) \<and> cme = None) \<or>
     (\<exists>err w. spec_run_stages [rs, ra] w0 = Escaped 0 err w)"
  by (auto simp: reached_done_def run_pipeline_def Let_def success_line_not_before
      success_line_in_banner split: outcome.splits option.splits)

text \<open>
  Claim C1. With the analytics entry point running the analytics stage and then the
  anomaly detection stage, a run of the script reaches its closing report exactly when
  the three stages returned one after the other, STANDARDIZATION on the world the run
  started in, ANALYTICS on the world that left, ANOMALY_DETECTION on the world that
  left; the run then ends in the world the third stage left, and its exit code is 0
  when the closing report can be printed. In every run the world the script leaves is
  the one the linear three-stage machine of the specification leaves: no stage runs
  twice, none runs out of order, and none runs after a stage that did not return.
\<close>

theorem run_pipeline_three_stages_in_order:
  "(reached_done
      (run_pipeline standardization (run_analytics_main analytics anomaly_detection) cme w0)
      \<longleftrightarrow>
      (\<exists>w1 w2 w3. standardization w0 = Returned w1 \<and> analytics w1 = Returned w2 \<and>
         anomaly_detection w2 = Returned w3)) \<and>
   (reached_done
      (run_pipeline standardization (run_analytics_main analytics anomaly_detection) cme w0)
      \<longrightarrow>
      (\<exists>w1 w2. standardization w0 = Returned w1 \<and> analytics w1 = Returned w2 \<and>
         anomaly_detection w2 =
           Returned (world (run_pipeline standardization
                              (run_analytics_main analytics anomaly_detection) cme w0)))) \<and>
   (reached_done
      (run_pipeline standardization (run_analytics_main analytics anomaly_detection) cme w0)
      \<and> cme = None \<longrightarrow>
      exit_code
        (run_pipeline standardization (run_analytics_main analytics anomaly_detection) cme w0)
        = 0) \<and>
   world (run_pipeline standardization (run_analytics_main analytics anomaly_detection) cme w0)
     = world_of (spec_run_stages [standardization, analytics, anomaly_detection] w0) \<and>
   (reached_done
      (run_pipeline standardization (run_analytics_main analytics anomaly_detection) cme w0)
      \<longleftrightarrow>
      (\<exists>w3. spec_run_stages [standardization, analytics, anomaly_detection] w0 = Returned w3))"
proof -
  let ?r = "run_pipeline standardization (run_analytics_main analytics anomaly_detection) cme w0"
  have done_iff: "reached_done ?r \<longleftrightarrow>
      (\<exists>w1 w2 w3. standardization w0 = Returned w1 \<and> analytics w1 = Returned w2 \<and>
         anomaly_detection w2 = Returned w3)"
    by (auto simp: reached_done_cases run_analytics_main_returned)
  have machine: "world ?r =
      world_of (spec_run_stages [standardization, analytics, anomaly_detection] w0)"
    by (simp add: world_run_pipeline run_analytics_main_def split: outcome.splits)
  have ends: "reached_done ?r \<longrightarrow>
      (\<exists>w1 w2. standardization w0 = Returned w1 \<and> analytics w1 = Returned w2 \<and>
         anomaly_detection w2 = Returned (world ?r))"
  proof
    assume "reached_done ?r"
    with done_iff obtain w1 w2 w3 where
      st: "standardization w0 = Returned w1" "analytics w1 = Returned w2"
          "anomaly_detection w2 = Returned w3"
      by blast
    then have "spec_run_stages [standardization, analytics, anomaly_detection] w0
        = Returned w3"
      by (simp only: spec_three_stages_returned) blast
    with machine have "world ?r = w3"
      by simp
    with st show "\<exists>w1 w2. standardization w0 = Returned w1 \<and> analytics w1 = Returned w2 \<and>
         anomaly_detection w2 = Returned (world ?r)"
      by blast
  qed
  have code: "reached_done ?r \<and> cme = None \<longrightarrow> exit_code ?r = 0"
    using run_pipeline_exit_zero
            [of standardization "run_analytics_main analytics anomaly_detection" cme w0]
    by blast
  have done_machine: "reached_done ?r \<longleftrightarrow>
      (\<exists>w3. spec_run_stages [standardization, analytics, anomaly_detection] w0 = Returned w3)"
    by (simp only: done_iff spec_three_stages_returned) blast
  from done_iff ends code machine done_machine show ?thesis
    by (intro conjI)
qed

theorem run_pipeline_three_stages_in_order_witness:
  "reached_done
     (run_pipeline counting_stage (run_analytics_main counting_stage counting_stage) None 0) \<and>
   world (run_pipeline counting_stage (run_analytics_main counting_stage counting_stage) None 0)
     = 3 \<and>
   exit_code
     (run_pipeline counting_stage (run_analytics_main counting_stage counting_stage) None 0)
     = 0"
proof -
  let ?r = "run_pipeline counting_stage (run_analytics_main counting_stage counting_stage) None 0"
  have stages: "\<exists>w1 w2 w3. counting_stage 0 = Returned w1 \<and> counting_stage w1 = Returned w2 \<and>
      counting_stage w2 = Returned w3"
    by (simp add: counting_stage_def)
  note t = run_pipeline_three_stages_in_order
             [of counting_stage counting_stage counting_stage None 0]
  from t stages have d: "reached_done ?r"
    by blast
  from t d have c: "exit_code ?r = 0"
    by blast
  from t have "world ?r =
      world_of (spec_run_stages [counting_stage, counting_stage, counting_stage] 0)"
    by blast
  then have w: "world ?r = 3"
    by (simp add: counting_stage_def)
  from d w c show ?thesis
    by (intro conjI)
qed

text \<open>
  Claim C2. When an entry point raises, the run aborts: the orchestrator prints its
  error line with the exception's message, the traceback goes to the error stream, the
  exit code is 1, and no later entry point is called: whatever the later entry point
  would do, the world is the one the raising call left, and the output ends with the
  error line (the next step is not announced). This holds for the first call, and for
  the second call after the first returned.
\<close>

theorem run_pipeline_fails_fast:
  "(rs w0 = Raised e w1 \<longrightarrow>
      run_pipeline rs ra cme w0 =
        \<lparr>world = w1,
         stdout = banner @ step1_header @ [''Error in standardization: '' @ message e],
         stderr = trace e,
         exit_code = 1\<rparr> \<and>
      exit_code (run_pipeline rs ra cme w0) = 1 \<and>
      exit_code (run_pipeline rs ra cme w0) \<noteq> 0 \<and>
      stderr (run_pipeline rs ra cme w0) = trace e \<and>
      last (stdout (run_pipeline rs ra cme w0)) = ''Error in standardization: '' @ message e \<and>
      \<not> reached_done (run_pipeline rs ra cme w0) \<and>
      world (run_pipeline rs ra cme w0) = w1) \<and>
   (rs w0 = Returned w1 \<and> ra w1 = Raised e w2 \<longrightarrow>
      run_pipeline rs ra cme w0 =
        \<lparr>world = w2,
         stdout = banner @ step1_header @ step2_header
                    @ [''Error in analytics: '' @ message e],
         stderr = trace e,
         exit_code = 1\<rparr> \<and>
      exit_code (run_pipeline rs ra cme w0) = 1 \<and>
      exit_code (run_pipeline rs ra cme w0) \<noteq> 0 \<and>
      stderr (run_pipeline rs ra cme w0) = trace e \<and>
      last (stdout (run_pipeline rs ra cme w0)) = ''Error in analytics: '' @ message e \<and>
      \<not> reached_done (run_pipeline rs ra cme w0) \<and>
      world (run_pipeline rs ra cme w0) = w2)"
  by (simp add: reached_done_cases) (simp add: run_pipeline_def Let_def)

theorem run_pipeline_fails_fast_witness:
  "exit_code (run_pipeline (Raised (Exn OtherError ''boom'' [''Traceback''])) counting_stage
                None 0) = 1 \<and>
   world (run_pipeline (Raised (Exn OtherError ''boom'' [''Traceback''])) counting_stage
            None 0) = 0 \<and>
   exit_code (run_pipeline counting_stage (Raised (Exn OtherError ''boom'' [''Traceback'']))
                None 0) = 1 \<and>
   stderr (run_pipeline counting_stage (Raised (Exn OtherError ''boom'' [''Traceback'']))
             None 0) = [''Traceback''] \<and>
   world (run_pipeline counting_stage (Raised (Exn OtherError ''boom'' [''Traceback'']))
            None 0) = 1"
proof -
  let ?e = "Exn OtherError ''boom'' [''Traceback'']"
  have first: "Raised ?e (0::nat) = Raised ?e 0"
    by simp
  have second: "counting_stage 0 = Returned 1 \<and> Raised ?e (1::nat) = Raised ?e 1"
    by (simp add: counting_stage_def)
  from run_pipeline_fails_fast
         [where rs = "Raised ?e" and ?w0.0 = 0 and e = ?e and ?w1.0 = 0
            and ra = counting_stage and cme = None]
       first
  have a: "exit_code (run_pipeline (Raised ?e) counting_stage None 0) = 1 \<and>
      world (run_pipeline (Raised ?e) counting_stage None 0) = 0"
    by blast
  from run_pipeline_fails_fast
         [where rs = counting_stage and ?w0.0 = 0 and e = ?e and ?w1.0 = 1
            and ra = "Raised ?e" and cme = None and ?w2.0 = 1]
       second
  have b: "exit_code (run_pipeline counting_stage (Raised ?e) None 0) = 1 \<and>
      stderr (run_pipeline counting_stage (Raised ?e) None 0) = trace ?e \<and>
      world (run_pipeline counting_stage (Raised ?e) None 0) = 1"
    by blast
  from a b show ?thesis
    by simp
qed

section \<open>Results about upload\<close>



lemma allowed_file_orders_csv: "allowed_file ''orders.csv''"
  by (simp add: allowed_file_def after_last_dot_def lower_char_def ALLOWED_EXTENSIONS_def)

lemma split_commas_full_header: "split_commas full_header = required_columns"
  by (simp add: full_header_def required_columns_def)





lemma upload_full_header_status:
  "snd (fst (upload_body example_pandas id example_timestamp
               (example_files full_header) example_fs)) = 200"
  by (simp add: upload_body_def Let_def example_files_def allowed_file_orders_csv
      pd_read_csv_def example_pandas_def example_parse_def split_commas_full_header
      full_header_def [THEN arg_cong [where f = "\<lambda>x. x = []"]]
      copy_file_def example_fs_def raw_data_path_def backup_path_def pipeline_script_def)


lemma upload_file_within_limit:
  "content_length req \<le> MAX_CONTENT_LENGTH \<Longrightarrow>
   upload_file pd secure_filename timestamp req fs =
     upload_body pd secure_filename timestamp (files req) fs"
  by (simp add: upload_file_def request_files_def)

lemma upload_file_over_limit:
  "MAX_CONTENT_LENGTH < content_length req \<Longrightarrow>
   upload_file pd secure_filename timestamp req fs =
     ((JObj [(''error'',
              JStr (''Upload failed: 413 Request Entity Too Large: ''
                      @ ''The data value transmitted exceeds the capacity limit.''))], 500),
      fs)"
  by (simp add: upload_file_def request_files_def error_response_def)

lemma example_request_within_limit:
  "content_length (example_request b) \<le> MAX_CONTENT_LENGTH"
  "files (example_request b) = example_files b"
  by (simp_all add: example_request_def MAX_CONTENT_LENGTH_def)


lemma upload_body_backs_up:
  assumes "snd (fst (upload_body pd secure_filename timestamp fls fs)) = 200"
    and "fs raw_data_path = Some old"
  shows "\<exists>upl. fls ''file'' = Some upl \<and>
           snd (upload_body pd secure_filename timestamp fls fs) (backup_path timestamp)
             = Some old \<and>
           snd (upload_body pd secure_filename timestamp fls fs) raw_data_path
             = Some (content upl) \<and>
           backup_path timestamp \<noteq> raw_data_path \<and>
           (\<forall>p. p \<noteq> backup_path timestamp \<and> p \<noteq> raw_data_path \<and>
                p \<noteq> Uploads (''upload_'' @ timestamp @ ''_'' @ secure_filename (filename upl))
                \<longrightarrow> snd (upload_body pd secure_filename timestamp fls fs) p = fs p)"
  using assms
  by (auto simp: upload_body_def Let_def error_response_def invalid_csv_def copy_file_def
      backup_path_def raw_data_path_def remove_file_def
      split: option.splits sum.splits if_splits)




text \<open>
  Claim C4. Whenever an upload is answered with status 200 and a raw-data file existed,
  the disk afterwards holds the earlier content of the raw-data file under the backup
  name (a name different from the raw-data file's), and the raw-data file holds the
  uploaded bytes: the copy to the backup was taken before the replacement. Apart from
  the backup, the raw-data file and the saved upload, no file changes.
\<close>

theorem upload_backs_up_prior_raw_data:
  assumes "snd (fst (upload_file pd secure_filename timestamp req fs)) = 200"
    and "fs raw_data_path = Some old"
  shows "\<exists>upl. files req ''file'' = Some upl \<and>
           snd (upload_file pd secure_filename timestamp req fs) (backup_path timestamp)
             = Some old \<and>
           snd (upload_file pd secure_filename timestamp req fs) raw_data_path
             = Some (content upl) \<and>
           backup_path timestamp \<noteq> raw_data_path \<and>
           (\<forall>p. p \<noteq> backup_path timestamp \<and> p \<noteq> raw_data_path \<and>
                p \<noteq> Uploads (''upload_'' @ timestamp @ ''_'' @ secure_filename (filename upl))
                \<longrightarrow> snd (upload_file pd secure_filename timestamp req fs) p = fs p)"
proof -
  have "content_length req \<le> MAX_CONTENT_LENGTH"
  proof (rule ccontr)
    assume "\<not> content_length req \<le> MAX_CONTENT_LENGTH"
    then have "MAX_CONTENT_LENGTH < content_length req"
      by simp
    then have "snd (fst (upload_file pd secure_filename timestamp req fs)) = 500"
      by (simp add: upload_file_over_limit)
    with assms(1) show False
      by simp
  qed
  then have same: "upload_file pd secure_filename timestamp req fs =
      upload_body pd secure_filename timestamp (files req) fs"
    by (rule upload_file_within_limit)
  from assms show ?thesis
    unfolding same by (rule upload_body_backs_up)
qed

theorem upload_backs_up_prior_raw_data_witness:
  "snd (upload_file example_pandas id example_timestamp (example_request full_header)
          example_fs) (backup_path example_timestamp) = Some ''po_id'' \<and>
   snd (upload_file example_pandas id example_timestamp (example_request full_header)
          example_fs) raw_data_path = Some full_header"
proof -
  have old: "example_fs raw_data_path = Some ''po_id''"
    by (simp add: example_fs_def raw_data_path_def pipeline_script_def)
  have ok: "snd (fst (upload_file example_pandas id example_timestamp
                        (example_request full_header) example_fs)) = 200"
    by (simp add: upload_file_within_limit example_request_within_limit
        upload_full_header_status)
  from upload_backs_up_prior_raw_data [OF ok old]
  show ?thesis
    by (auto simp: example_request_within_limit example_files_def)
qed

section \<open>Results about the processing trigger\<close>

lemma example_pandas_sel:
  "parse_csv example_pandas = example_parse"
  "merge_left example_pandas left right key = Inr left"
  "str_contains example_pandas pattern col = Inr (map (\<lambda>c. c = Val 1) col)"
  by (simp_all add: example_pandas_def)

lemma loaded_fs_script: "loaded_fs pipeline_script \<noteq> None"
  by (simp add: loaded_fs_def)

lemma loaded_fs_reads:
  "pd_read_csv example_pandas loaded_fs raw_data_path =
     Inr \<lparr>columns = [''po_id'', ''unit_price'', ''supplier'', ''region'', ''quantity'', ''unit'',
                       ''po_date''], rows = []\<rparr>"
  "pd_read_csv example_pandas loaded_fs standardized_path =
     Inr \<lparr>columns = [''po_id'', ''canonical_item_name'', ''confidence_score''], rows = []\<rparr>"
  "pd_read_csv example_pandas loaded_fs analytics_path =
     Inr \<lparr>columns = [''canonical_item_name'', ''region'', ''avg_price''], rows = []\<rparr>"
  "pd_read_csv example_pandas loaded_fs anomalies_path =
     Inr \<lparr>columns = [''po_id'', ''item_code''], rows = []\<rparr>"
  by (simp_all add: pd_read_csv_def loaded_fs_def pipeline_script_def raw_data_path_def
      standardized_path_def analytics_path_def anomalies_path_def example_pandas_sel
      example_parse_def)

lemma load_data_loaded_fs:
  "load_data example_pandas loaded_fs =
     \<lparr>standardized_df =
        Some \<lparr>columns = [''po_id'', ''canonical_item_name'', ''standardization_confidence''],
              rows = []\<rparr>,
      analytics_df = Some \<lparr>columns = [''canonical_item_name'', ''region'', ''avg_price''],
                            rows = []\<rparr>,
      anomalies_df = Some \<lparr>columns = [''po_id'', ''item_code''], rows = []\<rparr>\<rparr>"
  by (simp add: load_data_def load_frames_def and_then_def loaded_fs_reads select_columns_def
      rename_columns_def example_pandas_sel)

lemma process_data_script_missing:
  "fs pipeline_script = None \<Longrightarrow>
   process_data pd run c fs =
     (error_response (''Pipeline script not found at '' @ path_str pipeline_script) 500, c, fs)"
  by (simp add: process_data_def)

lemma process_data_exit_zero:
  "fs pipeline_script \<noteq> None \<Longrightarrow> run pipeline_call fs = (Completed result, fs') \<Longrightarrow>
   returncode result = 0 \<Longrightarrow>
   process_data pd run c fs =
     ((JObj [(''message'', JStr ''Data processed successfully''),
             (''output'', JStr (proc_stdout result)),
             (''standardized_items'', JInt (count_rows (standardized_df (load_data pd fs')))),
             (''analytics_records'', JInt (count_rows (analytics_df (load_data pd fs')))),
             (''anomalies_found'', JInt (count_rows (anomalies_df (load_data pd fs'))))],
       200),
      load_data pd fs', fs')"
  by (auto simp: process_data_def Let_def)

lemma process_data_exit_nonzero:
  "fs pipeline_script \<noteq> None \<Longrightarrow> run pipeline_call fs = (Completed result, fs') \<Longrightarrow>
   returncode result \<noteq> 0 \<Longrightarrow>
   process_data pd run c fs =
     ((JObj [(''error'', JStr ''Processing failed''),
             (''output'', JStr (proc_stdout result)),
             (''error_details'', JStr (proc_stderr result))],
       500),
      c, fs')"
  by (auto simp: process_data_def)

lemma process_data_timeout:
  "fs pipeline_script \<noteq> None \<Longrightarrow> run pipeline_call fs = (TimeoutExpired, fs') \<Longrightarrow>
   process_data pd run c fs = (timeout_response, c, fs')"
  by (auto simp: process_data_def timeout_response_def)

lemma process_data_run_error:
  "fs pipeline_script \<noteq> None \<Longrightarrow> run pipeline_call fs = (RunError e, fs') \<Longrightarrow>
   process_data pd run c fs =
     ((JObj [(''error'', JStr (''Processing failed: '' @ message e)),
             (''traceback'', JStr (concat (trace e)))],
       500),
      c, fs')"
  by (auto simp: process_data_def)

text \<open>
  Claim C5, as amended. The trigger runs the pipeline script as one blocking
  subprocess call with a timeout of 300 seconds, and what it answers depends on that
  call alone. When the process completes with return code 0, the three tables are
  reloaded from the disk the process left and the answer has status 200 and carries the
  captured standard output (not the standard error). When it completes with any other
  return code, the three tables stay as they were and the answer has status 500 and
  carries the captured standard output and standard error (not the return code). In
  every case other than a completion with return code 0 the tables stay as they were
  and the status is 500.
\<close>

theorem process_data_reloads_iff_exit_zero:
  "timeout pipeline_call = 300 \<and> script pipeline_call = pipeline_script \<and>
   (subprocess_run pipeline_call fs = run' pipeline_call fs \<longrightarrow>
      process_data pd subprocess_run c fs = process_data pd run' c fs) \<and>
   (fs pipeline_script \<noteq> None \<and> subprocess_run pipeline_call fs = (Completed result, fs') \<and>
    returncode result = 0 \<longrightarrow>
      process_data pd subprocess_run c fs =
        ((JObj [(''message'', JStr ''Data processed successfully''),
                (''output'', JStr (proc_stdout result)),
                (''standardized_items'', JInt (count_rows (standardized_df (load_data pd fs')))),
                (''analytics_records'', JInt (count_rows (analytics_df (load_data pd fs')))),
                (''anomalies_found'', JInt (count_rows (anomalies_df (load_data pd fs'))))],
          200),
         load_data pd fs', fs')) \<and>
   (fs pipeline_script \<noteq> None \<and> subprocess_run pipeline_call fs = (Completed result, fs') \<and>
    returncode result \<noteq> 0 \<longrightarrow>
      process_data pd subprocess_run c fs =
        ((JObj [(''error'', JStr ''Processing failed''),
                (''output'', JStr (proc_stdout result)),
                (''error_details'', JStr (proc_stderr result))],
          500),
         c, fs')) \<and>
   (\<not> (fs pipeline_script \<noteq> None \<and>
        (\<exists>r. fst (subprocess_run pipeline_call fs) = Completed r \<and> returncode r = 0)) \<longrightarrow>
      fst (snd (process_data pd subprocess_run c fs)) = c \<and>
      snd (fst (process_data pd subprocess_run c fs)) = 500)"
proof (intro conjI impI)
  show "timeout pipeline_call = 300" "script pipeline_call = pipeline_script"
    by (simp_all add: pipeline_call_def)
next
  assume "subprocess_run pipeline_call fs = run' pipeline_call fs"
  then show "process_data pd subprocess_run c fs = process_data pd run' c fs"
    by (simp add: process_data_def)
next
  assume "fs pipeline_script \<noteq> None \<and> subprocess_run pipeline_call fs = (Completed result, fs') \<and>
    returncode result = 0"
  then show "process_data pd subprocess_run c fs =
        ((JObj [(''message'', JStr ''Data processed successfully''),
                (''output'', JStr (proc_stdout result)),
                (''standardized_items'', JInt (count_rows (standardized_df (load_data pd fs')))),
                (''analytics_records'', JInt (count_rows (analytics_df (load_data pd fs')))),
                (''anomalies_found'', JInt (count_rows (anomalies_df (load_data pd fs'))))],
          200),
         load_data pd fs', fs')"
    by (simp add: process_data_exit_zero)
next
  assume "fs pipeline_script \<noteq> None \<and> subprocess_run pipeline_call fs = (Completed result, fs') \<and>
    returncode result \<noteq> 0"
  then show "process_data pd subprocess_run c fs =
        ((JObj [(''error'', JStr ''Processing failed''),
                (''output'', JStr (proc_stdout result)),
                (''error_details'', JStr (proc_stderr result))],
          500),
         c, fs')"
    by (simp add: process_data_exit_nonzero)
next
  assume a: "\<not> (fs pipeline_script \<noteq> None \<and>
        (\<exists>r. fst (subprocess_run pipeline_call fs) = Completed r \<and> returncode r = 0))"
  then show "fst (snd (process_data pd subprocess_run c fs)) = c"
    by (auto simp: process_data_def split: prod.splits run_outcome.splits)
  from a show "snd (fst (process_data pd subprocess_run c fs)) = 500"
    by (auto simp: process_data_def error_response_def split: prod.splits run_outcome.splits)
qed

theorem process_data_reloads_iff_exit_zero_witness:
  "process_data example_pandas (exits_with 0 ''out'' ''err'') not_loaded loaded_fs =
     ((JObj [(''message'', JStr ''Data processed successfully''),
             (''output'', JStr ''out''),
             (''standardized_items'', JInt 0),
             (''analytics_records'', JInt 0),
             (''anomalies_found'', JInt 0)], 200),
      load_data example_pandas loaded_fs, loaded_fs) \<and>
   load_data example_pandas loaded_fs \<noteq> not_loaded \<and>
   process_data example_pandas (exits_with 1 ''out'' ''err'') example_cache loaded_fs =
     ((JObj [(''error'', JStr ''Processing failed''), (''output'', JStr ''out''),
             (''error_details'', JStr ''err'')], 500),
      example_cache, loaded_fs) \<and>
   fst (snd (process_data example_pandas times_out example_cache loaded_fs)) = example_cache \<and>
   process_data example_pandas fails_within_300 example_cache loaded_fs =
     process_data example_pandas (exits_with 1 ''out'' ''err'') example_cache loaded_fs"
proof -
  let ?ok = "\<lparr>returncode = 0, proc_stdout = ''out'', proc_stderr = ''err''\<rparr>"
  let ?bad = "\<lparr>returncode = 1, proc_stdout = ''out'', proc_stderr = ''err''\<rparr>"
  have ok: "loaded_fs pipeline_script \<noteq> None \<and>
      exits_with 0 ''out'' ''err'' pipeline_call loaded_fs = (Completed ?ok, loaded_fs) \<and>
      returncode ?ok = 0"
    by (simp add: exits_with_def loaded_fs_script)
  have bad: "loaded_fs pipeline_script \<noteq> None \<and>
      exits_with 1 ''out'' ''err'' pipeline_call loaded_fs = (Completed ?bad, loaded_fs) \<and>
      returncode ?bad \<noteq> 0"
    by (simp add: exits_with_def loaded_fs_script)
  have late: "\<not> (loaded_fs pipeline_script \<noteq> None \<and>
        (\<exists>r. fst (times_out pipeline_call loaded_fs) = Completed r \<and> returncode r = 0))"
    by (simp add: times_out_def)
  have r1: "process_data example_pandas (exits_with 0 ''out'' ''err'') not_loaded loaded_fs =
     ((JObj [(''message'', JStr ''Data processed successfully''),
             (''output'', JStr (proc_stdout ?ok)),
             (''standardized_items'',
                JInt (count_rows (standardized_df (load_data example_pandas loaded_fs)))),
             (''analytics_records'',
                JInt (count_rows (analytics_df (load_data example_pandas loaded_fs)))),
             (''anomalies_found'',
                JInt (count_rows (anomalies_df (load_data example_pandas loaded_fs))))], 200),
      load_data example_pandas loaded_fs, loaded_fs)"
    using process_data_reloads_iff_exit_zero
            [where fs = loaded_fs and subprocess_run = "exits_with 0 ''out'' ''err''"
               and result = ?ok and fs' = loaded_fs and pd = example_pandas
               and c = not_loaded] ok
    by blast
  have r2: "process_data example_pandas (exits_with 1 ''out'' ''err'') example_cache loaded_fs =
     ((JObj [(''error'', JStr ''Processing failed''),
             (''output'', JStr (proc_stdout ?bad)),
             (''error_details'', JStr (proc_stderr ?bad))], 500),
      example_cache, loaded_fs)"
    using process_data_reloads_iff_exit_zero
            [where fs = loaded_fs and subprocess_run = "exits_with 1 ''out'' ''err''"
               and result = ?bad and fs' = loaded_fs and pd = example_pandas
               and c = example_cache] bad
    by blast
  have r3: "fst (snd (process_data example_pandas times_out example_cache loaded_fs))
      = example_cache"
    using process_data_reloads_iff_exit_zero
            [where fs = loaded_fs and subprocess_run = times_out and pd = example_pandas
               and c = example_cache] late
    by blast
  have loaded: "load_data example_pandas loaded_fs \<noteq> not_loaded"
    by (simp add: load_data_loaded_fs not_loaded_def)
  from r1 have r1': "process_data example_pandas (exits_with 0 ''out'' ''err'') not_loaded
      loaded_fs =
     ((JObj [(''message'', JStr ''Data processed successfully''),
             (''output'', JStr ''out''),
             (''standardized_items'', JInt 0),
             (''analytics_records'', JInt 0),
             (''anomalies_found'', JInt 0)], 200),
      load_data example_pandas loaded_fs, loaded_fs)"
    by (simp add: load_data_loaded_fs count_rows_def)
  from r2 have r2': "process_data example_pandas (exits_with 1 ''out'' ''err'') example_cache
      loaded_fs =
     ((JObj [(''error'', JStr ''Processing failed''), (''output'', JStr ''out''),
             (''error_details'', JStr ''err'')], 500),
      example_cache, loaded_fs)"
    by simp
  have same: "fails_within_300 pipeline_call loaded_fs =
      exits_with 1 ''out'' ''err'' pipeline_call loaded_fs"
    by (simp add: fails_within_300_def pipeline_call_def)
  have r4: "process_data example_pandas fails_within_300 example_cache loaded_fs =
     process_data example_pandas (exits_with 1 ''out'' ''err'') example_cache loaded_fs"
    using process_data_reloads_iff_exit_zero
            [where fs = loaded_fs and subprocess_run = fails_within_300
               and run' = "exits_with 1 ''out'' ''err''" and pd = example_pandas
               and c = example_cache] same
    by blast
  from r1' loaded r2' r3 r4 show ?thesis
    by (intro conjI)
qed

text \<open>
  Claim C5, as stated, fails in what the answer surfaces: return codes 1 and 2 with the
  same captured output give the same answer, so the return code itself is not surfaced
  (only whether it is 0); and with return code 0, a non-empty and an empty standard
  error give the same answer, so the standard error is not surfaced on success.
\<close>

theorem process_data_exit_code_counterexample:
  "fst (process_data example_pandas (exits_with 1 ''out'' ''err'') not_loaded loaded_fs) =
     (JObj [(''error'', JStr ''Processing failed''), (''output'', JStr ''out''),
            (''error_details'', JStr ''err'')], 500) \<and>
   fst (process_data example_pandas (exits_with 2 ''out'' ''err'') not_loaded loaded_fs) =
     (JObj [(''error'', JStr ''Processing failed''), (''output'', JStr ''out''),
            (''error_details'', JStr ''err'')], 500) \<and>
   fst (process_data example_pandas (exits_with 0 ''out'' ''warning'') not_loaded loaded_fs) =
     (JObj [(''message'', JStr ''Data processed successfully''), (''output'', JStr ''out''),
            (''standardized_items'', JInt 0), (''analytics_records'', JInt 0),
            (''anomalies_found'', JInt 0)], 200) \<and>
   fst (process_data example_pandas (exits_with 0 ''out'' []) not_loaded loaded_fs) =
     (JObj [(''message'', JStr ''Data processed successfully''), (''output'', JStr ''out''),
            (''standardized_items'', JInt 0), (''analytics_records'', JInt 0),
            (''anomalies_found'', JInt 0)], 200)"
  using loaded_fs_script
  by (auto simp: process_data_def exits_with_def Let_def load_data_loaded_fs count_rows_def)

text \<open>
  Claim C6. The trigger answers with the timeout response (status 500 and the error
  \<^verbatim>\<open>Processing timeout (max 5 minutes)\<close>) exactly when the script exists and the
  subprocess call ends with \<^verbatim>\<open>TimeoutExpired\<close>. So a completed process, whatever its
  return code and output, is never answered with the timeout response: the caller can
  tell the two apart from the answer alone. On a timeout the tables stay as they were.
\<close>

theorem process_data_timeout_distinct:
  "(fst (process_data pd subprocess_run c fs) = timeout_response \<longleftrightarrow>
      fs pipeline_script \<noteq> None \<and> fst (subprocess_run pipeline_call fs) = TimeoutExpired) \<and>
   (fs pipeline_script \<noteq> None \<and> subprocess_run pipeline_call fs = (Completed result, fs') \<longrightarrow>
      fst (process_data pd subprocess_run c fs) \<noteq> timeout_response) \<and>
   (fs pipeline_script \<noteq> None \<and> subprocess_run pipeline_call fs = (TimeoutExpired, fs') \<longrightarrow>
      process_data pd subprocess_run c fs =
        ((JObj [(''error'', JStr ''Processing timeout (max 5 minutes)'')], 500), c, fs'))"
  by (auto simp: process_data_def timeout_response_def error_response_def Let_def
      split: prod.splits run_outcome.splits)

theorem process_data_timeout_distinct_witness:
  "fst (process_data example_pandas times_out not_loaded loaded_fs) =
     (JObj [(''error'', JStr ''Processing timeout (max 5 minutes)'')], 500) \<and>
   fst (process_data example_pandas (exits_with 1 ''out'' ''err'') not_loaded loaded_fs) \<noteq>
     (JObj [(''error'', JStr ''Processing timeout (max 5 minutes)'')], 500)"
proof -
  let ?bad = "\<lparr>returncode = 1, proc_stdout = ''out'', proc_stderr = ''err''\<rparr>"
  have late: "loaded_fs pipeline_script \<noteq> None \<and>
      times_out pipeline_call loaded_fs = (TimeoutExpired, loaded_fs)"
    by (simp add: times_out_def loaded_fs_script)
  have bad: "loaded_fs pipeline_script \<noteq> None \<and>
      exits_with 1 ''out'' ''err'' pipeline_call loaded_fs = (Completed ?bad, loaded_fs)"
    by (simp add: exits_with_def loaded_fs_script)
  have r1: "process_data example_pandas times_out not_loaded loaded_fs =
      ((JObj [(''error'', JStr ''Processing timeout (max 5 minutes)'')], 500),
       not_loaded, loaded_fs)"
    using process_data_timeout_distinct
            [where fs = loaded_fs and subprocess_run = times_out and fs' = loaded_fs
               and pd = example_pandas and c = not_loaded] late
    by blast
  have r2: "fst (process_data example_pandas (exits_with 1 ''out'' ''err'') not_loaded loaded_fs)
      \<noteq> timeout_response"
    using process_data_timeout_distinct
            [where fs = loaded_fs and subprocess_run = "exits_with 1 ''out'' ''err''"
               and result = ?bad and fs' = loaded_fs and pd = example_pandas
               and c = not_loaded] bad
    by blast
  from r1 r2 show ?thesis
    by (simp add: timeout_response_def error_response_def)
qed

section \<open>Results about the loader and the read-only views\<close>

lemma load_frames_unreadable:
  assumes "p \<in> {standardized_path, analytics_path, anomalies_path, raw_data_path}"
    and "pd_read_csv pd fs p = Inl e"
  shows "\<exists>e'. load_frames pd fs = Inl e'"
  using assms
  by (auto simp: load_frames_def and_then_def split: sum.splits)

lemma load_data_unreadable:
  assumes "p \<in> {standardized_path, analytics_path, anomalies_path, raw_data_path}"
    and "pd_read_csv pd fs p = Inl e"
  shows "load_data pd fs = not_loaded"
  using load_frames_unreadable [OF assms] by (auto simp: load_data_def)

lemma pd_read_csv_missing:
  "fs p = None \<Longrightarrow> \<exists>e. pd_read_csv pd fs p = Inl e \<and> cls e = FileNotFoundError"
  by (simp add: pd_read_csv_def)

lemma views_not_loaded:
  "get_dashboard_stats pd not_loaded = Inr (error_response ''Data not loaded'' 500)"
  "get_items pd not_loaded req = Inr (error_response ''Data not loaded'' 500)"
  "get_analytics not_loaded = Inr (error_response ''Data not loaded'' 500)"
  "get_anomalies not_loaded = Inr (error_response ''Data not loaded'' 500)"
  "get_price_trends pd not_loaded = Inr (error_response ''Data not loaded'' 500)"
  "get_suppliers pd not_loaded = Inr (error_response ''Data not loaded'' 500)"
  "get_categories pd not_loaded =
     Inr (error_response ''Data not loaded or categories not available'' 500)"
  by (simp_all add: not_loaded_def get_dashboard_stats_def get_items_def get_analytics_def
      get_anomalies_def get_price_trends_def get_suppliers_def get_categories_def)

lemma frontend_stops:
  assumes "p \<in> {raw_data_path, standardized_path, analytics_path}"
    and "pd_read_csv pd fs p = Inl e"
  shows "\<exists>e'. frontend_load_data pd fs = Stopped (''Error loading data: '' @ message e')"
  using assms
  by (auto simp: frontend_load_data_def frontend_load_frames_def and_then_def
      split: sum.splits)

lemma example_cache_sel:
  "standardized_df example_cache = Some example_table"
  "analytics_df example_cache = Some example_table"
  "anomalies_df example_cache = Some example_table"
  by (simp_all add: example_cache_def)

text \<open>
  Claim C7, as amended. When one of the four data files (the three processed outputs
  or the raw file) is missing or cannot be read, the loader does not raise: it leaves
  all three served tables unset. Every read-only view asked in that state answers,
  without raising, with status 500 and the JSON error \<^verbatim>\<open>Data not loaded\<close> (for the
  categories view, \<^verbatim>\<open>Data not loaded or categories not available\<close>), whatever the
  request. The dashboard's loader catches the exception of an unreadable raw,
  standardized or analytics file: it shows \<^verbatim>\<open>Error loading data: ...\<close> and stops.
\<close>

theorem unreadable_files_give_not_loaded:
  assumes "p \<in> {standardized_path, analytics_path, anomalies_path, raw_data_path}"
    and "fs p = None \<or> (\<exists>e. pd_read_csv pd fs p = Inl e)"
  shows "load_data pd fs = not_loaded \<and>
    get_dashboard_stats pd (load_data pd fs) = Inr (JObj [(''error'', JStr ''Data not loaded'')], 500) \<and>
    get_items pd (load_data pd fs) req = Inr (JObj [(''error'', JStr ''Data not loaded'')], 500) \<and>
    get_analytics (load_data pd fs) = Inr (JObj [(''error'', JStr ''Data not loaded'')], 500) \<and>
    get_anomalies (load_data pd fs) = Inr (JObj [(''error'', JStr ''Data not loaded'')], 500) \<and>
    get_price_trends pd (load_data pd fs) = Inr (JObj [(''error'', JStr ''Data not loaded'')], 500) \<and>
    get_suppliers pd (load_data pd fs) = Inr (JObj [(''error'', JStr ''Data not loaded'')], 500) \<and>
    get_categories pd (load_data pd fs) =
      Inr (JObj [(''error'', JStr ''Data not loaded or categories not available'')], 500) \<and>
    (p \<noteq> anomalies_path \<longrightarrow>
       (\<exists>e. frontend_load_data pd fs = Stopped (''Error loading data: '' @ message e)))"
proof -
  from assms(2) obtain e where e: "pd_read_csv pd fs p = Inl e"
    using pd_read_csv_missing [of fs p pd] by blast
  have nl: "load_data pd fs = not_loaded"
    using assms(1) e by (rule load_data_unreadable)
  have fe: "p \<noteq> anomalies_path \<longrightarrow>
       (\<exists>e. frontend_load_data pd fs = Stopped (''Error loading data: '' @ message e))"
    using assms(1) e frontend_stops [of p pd fs e] by auto
  show ?thesis
    using fe by (simp add: nl views_not_loaded error_response_def)
qed

theorem unreadable_files_give_not_loaded_witness:
  "load_data example_pandas (loaded_fs(analytics_path := None)) = not_loaded \<and>
   get_items example_pandas (load_data example_pandas (loaded_fs(analytics_path := None)))
       \<lparr>page = 1, per_page = 20, search = []\<rparr> =
     Inr (JObj [(''error'', JStr ''Data not loaded'')], 500) \<and>
   get_analytics (load_data example_pandas (loaded_fs(analytics_path := None)) :: nat cache) =
     Inr (JObj [(''error'', JStr ''Data not loaded'')], 500) \<and>
   (\<exists>e. frontend_load_data example_pandas (loaded_fs(analytics_path := None)) =
         Stopped (''Error loading data: '' @ message e))"
proof -
  have h0: "analytics_path \<noteq> anomalies_path"
    by (simp add: analytics_path_def anomalies_path_def)
  have h1: "analytics_path \<in> {standardized_path, analytics_path, anomalies_path, raw_data_path}"
    by simp
  have h2: "(loaded_fs(analytics_path := None)) analytics_path = None \<or>
      (\<exists>e. pd_read_csv example_pandas (loaded_fs(analytics_path := None)) analytics_path
             = Inl e)"
    by simp
  from unreadable_files_give_not_loaded [OF h1 h2, of "\<lparr>page = 1, per_page = 20, search = []\<rparr>"]
       h0
  show ?thesis
    by blast
qed

text \<open>
  Claim C7, as stated, fails: with only the analytics file missing, the items view
  (whose own table could be read) answers with status 500, a server failure, and the
  dashboard stops with an error instead of showing a state of a pipeline not yet run.
\<close>

theorem missing_file_views_fail_counterexample:
  "get_items example_pandas (load_data example_pandas (loaded_fs(analytics_path := None)))
       \<lparr>page = 1, per_page = 20, search = []\<rparr> =
     Inr (JObj [(''error'', JStr ''Data not loaded'')], 500) \<and>
   server_failure (JObj [(''error'', JStr ''Data not loaded'')] :: nat json, 500) \<and>
   frontend_load_data example_pandas (loaded_fs(analytics_path := None)) =
     Stopped (''Error loading data: [Errno 2] No such file or directory: ''
                @ ''data/processed/cost_analytics.csv'')"
proof (intro conjI)
  have "pd_read_csv example_pandas (loaded_fs(analytics_path := None)) analytics_path =
      Inl (Exn FileNotFoundError
             (''[Errno 2] No such file or directory: '' @ path_str analytics_path) [])"
    by (simp add: pd_read_csv_def)
  then have "load_data example_pandas (loaded_fs(analytics_path := None)) = not_loaded"
    using load_data_unreadable [of analytics_path example_pandas] by simp
  then show "get_items example_pandas
       (load_data example_pandas (loaded_fs(analytics_path := None)))
       \<lparr>page = 1, per_page = 20, search = []\<rparr> =
     Inr (JObj [(''error'', JStr ''Data not loaded'')], 500)"
    by (simp add: views_not_loaded error_response_def)
  show "server_failure (JObj [(''error'', JStr ''Data not loaded'')] :: nat json, 500)"
    by (simp add: server_failure_def)
  have reads:
    "pd_read_csv example_pandas (loaded_fs(analytics_path := None)) raw_data_path =
       pd_read_csv example_pandas loaded_fs raw_data_path"
    "pd_read_csv example_pandas (loaded_fs(analytics_path := None)) standardized_path =
       pd_read_csv example_pandas loaded_fs standardized_path"
    by (simp_all add: pd_read_csv_def analytics_path_def raw_data_path_def
        standardized_path_def)
  show "frontend_load_data example_pandas (loaded_fs(analytics_path := None)) =
     Stopped (''Error loading data: [Errno 2] No such file or directory: ''
                @ ''data/processed/cost_analytics.csv'')"
    by (simp add: frontend_load_data_def frontend_load_frames_def and_then_def reads
        loaded_fs_reads)
       (simp add: pd_read_csv_def analytics_path_def)
qed

lemma jsonify_replace_nan: "jsonify_cell (replace_nan c) = spec_render_cell c"
  by (cases c) simp_all

lemma jsonify_record_replace:
  "jsonify_record (zip cols (map replace_nan r)) = spec_render_row cols r"
  by (auto simp: jsonify_record_def spec_render_row_def zip_map2 jsonify_replace_nan)

lemma served_records:
  "jsonify_records (to_dict_records (replace_nan_none df)) =
     JList (map (spec_render_row (columns df)) (rows df))"
  by (simp add: jsonify_records_def to_dict_records_def replace_nan_none_def
      jsonify_record_replace comp_def)

lemma nan_free_spec_render_cell: "nan_free (spec_render_cell c)"
  by (cases c) simp_all

lemma nan_free_spec_render_row: "nan_free (spec_render_row cols r)"
  by (auto simp: spec_render_row_def nan_free_spec_render_cell dest!: set_zip_rightD)

lemma nan_free_served_records:
  "nan_free (JList (map (spec_render_row cols) rs))"
  by (simp add: nan_free_spec_render_row)

lemma example_rows_rendered:
  "map (spec_render_row (columns example_table)) (rows example_table) =
     [JObj [(''canonical_item_name'', JVal 1), (''supplier_name'', JNull)],
      JObj [(''canonical_item_name'', JVal 2), (''supplier_name'', JVal 3)],
      JObj [(''canonical_item_name'', JNull), (''supplier_name'', JVal 1)]]"
  by (simp add: example_table_def spec_render_row_def)

text \<open>
  Claim C8. The analytics and anomalies views answer with one JSON object per row of
  their table, and the items view with one per row of the requested slice of the
  (filtered) table; in each object a NaN cell of the table is written as
  \<^verbatim>\<open>null\<close>, as the specification's rendering \<open>spec_render_row\<close> has it. No answer of
  the three views contains the token \<^verbatim>\<open>NaN\<close>.
\<close>

theorem views_render_nan_as_null:
  "(analytics_df c = Some adf \<longrightarrow>
      get_analytics c = Inr (JList (map (spec_render_row (columns adf)) (rows adf)), 200)) \<and>
   (anomalies_df c = Some ndf \<longrightarrow>
      get_anomalies c = Inr (JList (map (spec_render_row (columns ndf)) (rows ndf)), 200)) \<and>
   (standardized_df c = Some sdf \<and> filtered pd sdf (search req) = Inr df \<and>
    per_page req \<noteq> 0 \<longrightarrow>
      get_items pd c req =
        Inr (JObj
               [(''items'',
                   JList (map (spec_render_row (columns df))
                            (py_slice (rows df) ((page req - 1) * per_page req)
                               ((page req - 1) * per_page req + per_page req)))),
                (''total'', JInt (int (length (rows df)))),
                (''page'', JInt (page req)),
                (''per_page'', JInt (per_page req)),
                (''pages'', JInt ((int (length (rows df)) + per_page req - 1) div per_page req))],
             200)) \<and>
   (get_analytics c = Inr (body1, status1) \<longrightarrow> nan_free body1) \<and>
   (get_anomalies c = Inr (body2, status2) \<longrightarrow> nan_free body2) \<and>
   (get_items pd c req = Inr (body3, status3) \<longrightarrow> nan_free body3)"
proof (intro conjI impI)
  assume "analytics_df c = Some adf"
  then show "get_analytics c = Inr (JList (map (spec_render_row (columns adf)) (rows adf)), 200)"
    by (simp add: get_analytics_def served_records)
next
  assume "anomalies_df c = Some ndf"
  then show "get_anomalies c = Inr (JList (map (spec_render_row (columns ndf)) (rows ndf)), 200)"
    by (simp add: get_anomalies_def served_records)
next
  assume "standardized_df c = Some sdf \<and> filtered pd sdf (search req) = Inr df \<and>
    per_page req \<noteq> 0"
  then show "get_items pd c req =
        Inr (JObj
               [(''items'',
                   JList (map (spec_render_row (columns df))
                            (py_slice (rows df) ((page req - 1) * per_page req)
                               ((page req - 1) * per_page req + per_page req)))),
                (''total'', JInt (int (length (rows df)))),
                (''page'', JInt (page req)),
                (''per_page'', JInt (per_page req)),
                (''pages'', JInt ((int (length (rows df)) + per_page req - 1) div per_page req))],
             200)"
    using served_records [of "iloc df ((page req - 1) * per_page req)
                                 ((page req - 1) * per_page req + per_page req)"]
    by (simp add: get_items_def and_then_def Let_def iloc_def)
next
  assume "get_analytics c = Inr (body1, status1)"
  then show "nan_free body1"
    by (auto simp: get_analytics_def error_response_def served_records
        nan_free_spec_render_row split: option.splits)
next
  assume "get_anomalies c = Inr (body2, status2)"
  then show "nan_free body2"
    by (auto simp: get_anomalies_def error_response_def served_records
        nan_free_spec_render_row split: option.splits)
next
  assume "get_items pd c req = Inr (body3, status3)"
  then show "nan_free body3"
    by (auto simp: get_items_def error_response_def served_records and_then_def Let_def
        nan_free_spec_render_row split: option.splits sum.splits if_splits)
qed

theorem views_render_nan_as_null_witness:
  "get_analytics example_cache =
     Inr (JList [JObj [(''canonical_item_name'', JVal 1), (''supplier_name'', JNull)],
                 JObj [(''canonical_item_name'', JVal 2), (''supplier_name'', JVal 3)],
                 JObj [(''canonical_item_name'', JNull), (''supplier_name'', JVal 1)]], 200) \<and>
   get_anomalies example_cache =
     Inr (JList [JObj [(''canonical_item_name'', JVal 1), (''supplier_name'', JNull)],
                 JObj [(''canonical_item_name'', JVal 2), (''supplier_name'', JVal 3)],
                 JObj [(''canonical_item_name'', JNull), (''supplier_name'', JVal 1)]], 200) \<and>
   get_items example_pandas example_cache \<lparr>page = 1, per_page = 2, search = []\<rparr> =
     Inr (JObj [(''items'',
                   JList [JObj [(''canonical_item_name'', JVal 1), (''supplier_name'', JNull)],
                          JObj [(''canonical_item_name'', JVal 2), (''supplier_name'', JVal 3)]]),
                (''total'', JInt 3), (''page'', JInt 1), (''per_page'', JInt 2),
                (''pages'', JInt 2)], 200) \<and>
   nan_free (JList [JObj [(''canonical_item_name'', JVal 1), (''supplier_name'', JNull)],
                    JObj [(''canonical_item_name'', JVal 2), (''supplier_name'', JVal (3::nat))],
                    JObj [(''canonical_item_name'', JNull), (''supplier_name'', JVal 1)]])"
proof -
  let ?req = "\<lparr>page = 1, per_page = 2, search = []\<rparr>"
  let ?served = "JList [JObj [(''canonical_item_name'', JVal 1), (''supplier_name'', JNull)],
                 JObj [(''canonical_item_name'', JVal 2), (''supplier_name'', JVal (3::nat))],
                 JObj [(''canonical_item_name'', JNull), (''supplier_name'', JVal 1)]]"
  have f: "standardized_df example_cache = Some example_table \<and>
      filtered example_pandas example_table (search ?req) = Inr example_table \<and>
      per_page ?req \<noteq> 0"
    by (simp add: filtered_def example_cache_sel)
  note t = views_render_nan_as_null
             [where c = example_cache and adf = example_table and ndf = example_table
                and sdf = example_table and df = example_table and pd = example_pandas
                and req = ?req]
  from t have r1: "get_analytics example_cache =
      Inr (JList (map (spec_render_row (columns example_table)) (rows example_table)), 200)"
    by (simp add: example_cache_sel)
  from t have r2: "get_anomalies example_cache =
      Inr (JList (map (spec_render_row (columns example_table)) (rows example_table)), 200)"
    by (simp add: example_cache_sel)
  from t f have r3: "get_items example_pandas example_cache ?req =
        Inr (JObj
               [(''items'',
                   JList (map (spec_render_row (columns example_table))
                            (py_slice (rows example_table) ((page ?req - 1) * per_page ?req)
                               ((page ?req - 1) * per_page ?req + per_page ?req)))),
                (''total'', JInt (int (length (rows example_table)))),
                (''page'', JInt (page ?req)),
                (''per_page'', JInt (per_page ?req)),
                (''pages'',
                   JInt ((int (length (rows example_table)) + per_page ?req - 1)
                           div per_page ?req))],
             200)"
    by blast
  from r1 have r1': "get_analytics example_cache = Inr (?served, 200)"
    by (simp only: example_rows_rendered)
  from r2 have r2': "get_anomalies example_cache = Inr (?served, 200)"
    by (simp only: example_rows_rendered)
  from r3 have r3': "get_items example_pandas example_cache ?req =
     Inr (JObj [(''items'',
                   JList [JObj [(''canonical_item_name'', JVal 1), (''supplier_name'', JNull)],
                          JObj [(''canonical_item_name'', JVal 2), (''supplier_name'', JVal 3)]]),
                (''total'', JInt 3), (''page'', JInt 1), (''per_page'', JInt 2),
                (''pages'', JInt 2)], 200)"
    by (simp add: example_table_def spec_render_row_def py_slice_def slice_bound_def)
  from views_render_nan_as_null
         [where c = example_cache and ?body1.0 = ?served and ?status1.0 = 200] r1'
  have "nan_free ?served"
    by blast
  with r1' r2' r3' show ?thesis
    by (intro conjI)
qed

lemma py_slice_page:
  assumes "0 \<le> start" and "0 \<le> n"
  shows "py_slice xs start (start + n) = take (nat n) (drop (nat start) xs)"
proof (cases "start \<le> int (length xs)")
  case True
  show ?thesis
  proof (cases "start + n \<le> int (length xs)")
    case True
    with assms \<open>start \<le> int (length xs)\<close> show ?thesis
      by (simp add: py_slice_def slice_bound_def Let_def min_def)
  next
    case False
    with assms \<open>start \<le> int (length xs)\<close>
    have "py_slice xs start (start + n) = take (length xs - nat start) (drop (nat start) xs)"
      by (simp add: py_slice_def slice_bound_def Let_def min_def nat_diff_distrib)
    moreover from False assms have "length (drop (nat start) xs) \<le> nat n"
      by simp
    ultimately show ?thesis
      by simp
  qed
next
  case False
  with assms show ?thesis
    by (simp add: py_slice_def slice_bound_def Let_def min_def)
qed

lemma pages_is_ceiling:
  assumes "1 \<le> (p::int)"
  shows "(t + p - 1) div p = \<lceil>real_of_int t / real_of_int p\<rceil>"
proof -
  define z where "z = (t + p - 1) div p"
  have m: "0 \<le> (t + p - 1) mod p" "(t + p - 1) mod p < p"
    using assms by simp_all
  have eq: "t + p - 1 = z * p + (t + p - 1) mod p"
    by (simp add: z_def)
  have le: "t \<le> z * p"
    using m eq by linarith
  have "z * p - p < t"
    using m eq by linarith
  then have lt: "(z - 1) * p < t"
    by (simp add: algebra_simps)
  have pos: "0 < real_of_int p"
    using assms by simp
  have "real_of_int t \<le> real_of_int (z * p)"
    using le by (simp only: of_int_le_iff)
  then have upper: "real_of_int t / real_of_int p \<le> real_of_int z"
    using pos by (simp add: pos_divide_le_eq)
  have "real_of_int ((z - 1) * p) < real_of_int t"
    using lt by (simp only: of_int_less_iff)
  then have lower: "real_of_int z - 1 < real_of_int t / real_of_int p"
    using pos by (simp add: pos_less_divide_eq)
  from lower upper have "\<lceil>real_of_int t / real_of_int p\<rceil> = z"
    by (rule ceiling_unique)
  then show ?thesis
    by (simp add: z_def)
qed

text \<open>
  Claim C9. For a request with \<open>page \<ge> 1\<close> and \<open>per_page \<ge> 1\<close>, on loaded data whose
  search filter evaluates to the table \<open>df\<close>, the items view answers with status 200:
  the items are the records of the rows of \<open>df\<close> from index \<open>(page - 1) * per_page\<close>,
  at most \<open>per_page\<close> of them; the total is the number of rows of \<open>df\<close> (the page does
  not enter it); the page count is the ceiling of total / per_page; and a page that
  starts at or past the end has an empty item list.
\<close>

theorem items_pagination:
  assumes "1 \<le> page req" and "1 \<le> per_page req"
    and "standardized_df c = Some sdf"
    and "filtered pd sdf (search req) = Inr df"
  shows "\<exists>items.
     get_items pd c req =
       Inr (JObj [(''items'', JList items),
                  (''total'', JInt (int (length (rows df)))),
                  (''page'', JInt (page req)),
                  (''per_page'', JInt (per_page req)),
                  (''pages'',
                     JInt \<lceil>real (length (rows df)) / real_of_int (per_page req)\<rceil>)],
            200) \<and>
     JList items =
       jsonify_records (to_dict_records (replace_nan_none
         (df\<lparr>rows := take (nat (per_page req))
                         (drop (nat ((page req - 1) * per_page req)) (rows df))\<rparr>))) \<and>
     int (length items) \<le> per_page req \<and>
     (int (length (rows df)) \<le> (page req - 1) * per_page req \<longrightarrow> items = [])"
proof -
  let ?start = "(page req - 1) * per_page req"
  let ?page_rows = "take (nat (per_page req)) (drop (nat ?start) (rows df))"
  let ?items = "map jsonify_record (to_dict_records (replace_nan_none (df\<lparr>rows := ?page_rows\<rparr>)))"
  have start: "0 \<le> ?start"
    using assms(1,2) by simp
  have slice: "py_slice (rows df) ?start (?start + per_page req) = ?page_rows"
    using start assms(2) by (simp add: py_slice_page)
  have pages: "(int (length (rows df)) + per_page req - 1) div per_page req =
      \<lceil>real (length (rows df)) / real_of_int (per_page req)\<rceil>"
    using pages_is_ceiling [OF assms(2), of "int (length (rows df))"] by simp
  have run: "get_items pd c req =
       Inr (JObj [(''items'', JList ?items),
                  (''total'', JInt (int (length (rows df)))),
                  (''page'', JInt (page req)),
                  (''per_page'', JInt (per_page req)),
                  (''pages'',
                     JInt \<lceil>real (length (rows df)) / real_of_int (per_page req)\<rceil>)],
            200)"
    using assms(2,3,4) slice pages
    by (simp add: get_items_def and_then_def Let_def iloc_def jsonify_records_def)
  have len: "int (length ?items) \<le> per_page req"
    using assms(2) by (simp add: to_dict_records_def replace_nan_none_def)
  have past: "int (length (rows df)) \<le> ?start \<longrightarrow> ?items = []"
    by (simp add: to_dict_records_def replace_nan_none_def)
  show ?thesis
    using run len past by (simp add: jsonify_records_def)
qed

theorem items_pagination_witness:
  "get_items example_pandas example_cache \<lparr>page = 2, per_page = 2, search = []\<rparr> =
     Inr (JObj [(''items'',
                   JList [JObj [(''canonical_item_name'', JNull), (''supplier_name'', JVal 1)]]),
                (''total'', JInt 3), (''page'', JInt 2), (''per_page'', JInt 2),
                (''pages'', JInt 2)], 200) \<and>
   get_items example_pandas example_cache \<lparr>page = 3, per_page = 2, search = []\<rparr> =
     Inr (JObj [(''items'', JList []),
                (''total'', JInt 3), (''page'', JInt 3), (''per_page'', JInt 2),
                (''pages'', JInt 2)], 200) \<and>
   get_items example_pandas example_cache \<lparr>page = 2, per_page = 1, search = ''x''\<rparr> =
     Inr (JObj [(''items'',
                   JList [JObj [(''canonical_item_name'', JNull), (''supplier_name'', JVal 1)]]),
                (''total'', JInt 2), (''page'', JInt 2), (''per_page'', JInt 1),
                (''pages'', JInt 2)], 200)"
proof -
  let ?rs = "\<lparr>page = 2, per_page = 1, search = ''x''\<rparr>"
  let ?found = "\<lparr>columns = [''canonical_item_name'', ''supplier_name''],
                 rows = [[Val 1, NaN], [NaN, Val 1]]\<rparr> :: nat frame"
  have fs: "filtered example_pandas example_table (search ?rs) = Inr ?found"
    by (simp add: filtered_def search_filter_def and_then_def getitem_def cell_at_def
        mask_rows_def example_table_def example_pandas_def)
  from items_pagination [where req = ?rs and c = example_cache and sdf = example_table
      and pd = example_pandas and df = ?found, OF _ _ example_cache_sel(1) fs]
  obtain itemss where
    as: "get_items example_pandas example_cache ?rs =
       Inr (JObj [(''items'', JList itemss),
                  (''total'', JInt (int (length (rows ?found)))),
                  (''page'', JInt (page ?rs)),
                  (''per_page'', JInt (per_page ?rs)),
                  (''pages'',
                     JInt \<lceil>real (length (rows ?found)) / real_of_int (per_page ?rs)\<rceil>)],
            200)"
    and bs: "JList itemss =
       jsonify_records (to_dict_records (replace_nan_none
         (?found\<lparr>rows := take (nat (per_page ?rs))
                         (drop (nat ((page ?rs - 1) * per_page ?rs)) (rows ?found))\<rparr>)))"
    by auto
  from bs have "itemss = [JObj [(''canonical_item_name'', JNull), (''supplier_name'', JVal 1)]]"
    by (simp add: jsonify_records_def jsonify_record_def to_dict_records_def
        replace_nan_none_def)
  with as have searched:
    "get_items example_pandas example_cache ?rs =
     Inr (JObj [(''items'',
                   JList [JObj [(''canonical_item_name'', JNull), (''supplier_name'', JVal 1)]]),
                (''total'', JInt 2), (''page'', JInt 2), (''per_page'', JInt 1),
                (''pages'', JInt 2)], 200)"
    by simp
  let ?r2 = "\<lparr>page = 2, per_page = 2, search = []\<rparr>"
  let ?r3 = "\<lparr>page = 3, per_page = 2, search = []\<rparr>"
  have f2: "filtered example_pandas example_table (search ?r2) = Inr example_table"
    by (simp add: filtered_def)
  have f3: "filtered example_pandas example_table (search ?r3) = Inr example_table"
    by (simp add: filtered_def)
  have n: "length (rows example_table) = 3"
    by (simp add: example_table_def)
  from items_pagination [where req = ?r2 and c = example_cache and sdf = example_table
      and pd = example_pandas and df = example_table, OF _ _ example_cache_sel(1) f2]
  obtain items2 where
    a2: "get_items example_pandas example_cache ?r2 =
       Inr (JObj [(''items'', JList items2),
                  (''total'', JInt (int (length (rows example_table)))),
                  (''page'', JInt (page ?r2)),
                  (''per_page'', JInt (per_page ?r2)),
                  (''pages'',
                     JInt \<lceil>real (length (rows example_table)) / real_of_int (per_page ?r2)\<rceil>)],
            200)"
    and b2: "JList items2 =
       jsonify_records (to_dict_records (replace_nan_none
         (example_table\<lparr>rows := take (nat (per_page ?r2))
                         (drop (nat ((page ?r2 - 1) * per_page ?r2)) (rows example_table))\<rparr>)))"
    by auto
  from items_pagination [where req = ?r3 and c = example_cache and sdf = example_table
      and pd = example_pandas and df = example_table, OF _ _ example_cache_sel(1) f3]
  obtain items3 where
    a3: "get_items example_pandas example_cache ?r3 =
       Inr (JObj [(''items'', JList items3),
                  (''total'', JInt (int (length (rows example_table)))),
                  (''page'', JInt (page ?r3)),
                  (''per_page'', JInt (per_page ?r3)),
                  (''pages'',
                     JInt \<lceil>real (length (rows example_table)) / real_of_int (per_page ?r3)\<rceil>)],
            200)"
    and c3: "int (length (rows example_table)) \<le> (page ?r3 - 1) * per_page ?r3 \<longrightarrow> items3 = []"
    by auto
  from b2 have i2: "items2 = [JObj [(''canonical_item_name'', JNull), (''supplier_name'', JVal 1)]]"
    by (simp add: jsonify_records_def jsonify_record_def to_dict_records_def
        replace_nan_none_def example_table_def)
  from c3 have i3: "items3 = []"
    by (simp add: n)
  have ceil: "\<lceil>real 3 / real_of_int 2\<rceil> = (2::int)"
    by simp
  from a2 a3 i2 i3 ceil have
    "get_items example_pandas example_cache ?r2 =
     Inr (JObj [(''items'',
                   JList [JObj [(''canonical_item_name'', JNull), (''supplier_name'', JVal 1)]]),
                (''total'', JInt 3), (''page'', JInt 2), (''per_page'', JInt 2),
                (''pages'', JInt 2)], 200)"
    "get_items example_pandas example_cache ?r3 =
     Inr (JObj [(''items'', JList []),
                (''total'', JInt 3), (''page'', JInt 3), (''per_page'', JInt 2),
                (''pages'', JInt 2)], 200)"
    by (simp_all add: n)
  with searched show ?thesis
    by (intro conjI)
qed

section \<open>Results about the dashboard's loader\<close>

text \<open>
  Claim C10. When the anomalies file is absent or has no bytes, the dashboard's loader
  returns, with the raw, standardized and analytics tables it read, an anomalies table
  of no rows and exactly the six columns po_id, item_code, unit_price, expected_price,
  anomaly_flag, anomaly_reason. The other three files are still required: if one of
  them cannot be read, the loader shows the error and stops.
\<close>

theorem frontend_substitutes_empty_anomalies:
  assumes "fs anomalies_path = None \<or> fs anomalies_path = Some []"
  shows "(pd_read_csv pd fs raw_data_path = Inr raw_df \<and>
          pd_read_csv pd fs standardized_path = Inr sdf \<and>
          pd_read_csv pd fs analytics_path = Inr adf \<longrightarrow>
            frontend_load_data pd fs =
              Loaded raw_df sdf adf
                \<lparr>columns = [''po_id'', ''item_code'', ''unit_price'', ''expected_price'',
                             ''anomaly_flag'', ''anomaly_reason''],
                 rows = []\<rparr>) \<and>
         (p \<in> {raw_data_path, standardized_path, analytics_path} \<and>
          pd_read_csv pd fs p = Inl e \<longrightarrow>
            (\<exists>e'. frontend_load_data pd fs = Stopped (''Error loading data: '' @ message e')))"
proof (intro conjI impI)
  from assms have anomalies: "read_anomalies pd fs = Inr empty_anomalies"
    by (auto simp: read_anomalies_def pd_read_csv_def)
  assume "pd_read_csv pd fs raw_data_path = Inr raw_df \<and>
          pd_read_csv pd fs standardized_path = Inr sdf \<and>
          pd_read_csv pd fs analytics_path = Inr adf"
  with anomalies show "frontend_load_data pd fs =
              Loaded raw_df sdf adf
                \<lparr>columns = [''po_id'', ''item_code'', ''unit_price'', ''expected_price'',
                             ''anomaly_flag'', ''anomaly_reason''],
                 rows = []\<rparr>"
    by (simp add: frontend_load_data_def frontend_load_frames_def and_then_def
        empty_anomalies_def)
next
  assume "p \<in> {raw_data_path, standardized_path, analytics_path} \<and>
          pd_read_csv pd fs p = Inl e"
  then show "\<exists>e'. frontend_load_data pd fs = Stopped (''Error loading data: '' @ message e')"
    using frontend_stops [of p pd fs e] by blast
qed

theorem frontend_substitutes_empty_anomalies_witness:
  "frontend_load_data example_pandas (loaded_fs(anomalies_path := None)) =
     Loaded
       \<lparr>columns = [''po_id'', ''unit_price'', ''supplier'', ''region'', ''quantity'', ''unit'',
                    ''po_date''], rows = []\<rparr>
       \<lparr>columns = [''po_id'', ''canonical_item_name'', ''confidence_score''], rows = []\<rparr>
       \<lparr>columns = [''canonical_item_name'', ''region'', ''avg_price''], rows = []\<rparr>
       \<lparr>columns = [''po_id'', ''item_code'', ''unit_price'', ''expected_price'',
                    ''anomaly_flag'', ''anomaly_reason''], rows = []\<rparr> \<and>
   (\<exists>e'. frontend_load_data example_pandas
            (loaded_fs(anomalies_path := None, analytics_path := None)) =
          Stopped (''Error loading data: '' @ message e'))"
proof -
  let ?fs = "loaded_fs(anomalies_path := None)"
  let ?fs' = "loaded_fs(anomalies_path := None, analytics_path := None)"
  have h: "?fs anomalies_path = None \<or> ?fs anomalies_path = Some []"
    by simp
  have h': "?fs' anomalies_path = None \<or> ?fs' anomalies_path = Some []"
    by (simp add: anomalies_path_def analytics_path_def)
  have same: "pd_read_csv example_pandas ?fs raw_data_path =
        pd_read_csv example_pandas loaded_fs raw_data_path"
      "pd_read_csv example_pandas ?fs standardized_path =
        pd_read_csv example_pandas loaded_fs standardized_path"
      "pd_read_csv example_pandas ?fs analytics_path =
        pd_read_csv example_pandas loaded_fs analytics_path"
    by (simp_all add: pd_read_csv_def anomalies_path_def raw_data_path_def
        standardized_path_def analytics_path_def)
  have gone: "analytics_path \<in> {raw_data_path, standardized_path, analytics_path} \<and>
      pd_read_csv example_pandas ?fs' analytics_path =
        Inl (Exn FileNotFoundError
               (''[Errno 2] No such file or directory: '' @ path_str analytics_path) [])"
    by (simp add: pd_read_csv_def)
  from frontend_substitutes_empty_anomalies
         [where fs = ?fs and pd = example_pandas, OF h]
       same loaded_fs_reads
  have r1: "frontend_load_data example_pandas ?fs =
     Loaded
       \<lparr>columns = [''po_id'', ''unit_price'', ''supplier'', ''region'', ''quantity'', ''unit'',
                    ''po_date''], rows = []\<rparr>
       \<lparr>columns = [''po_id'', ''canonical_item_name'', ''confidence_score''], rows = []\<rparr>
       \<lparr>columns = [''canonical_item_name'', ''region'', ''avg_price''], rows = []\<rparr>
       \<lparr>columns = [''po_id'', ''item_code'', ''unit_price'', ''expected_price'',
                    ''anomaly_flag'', ''anomaly_reason''], rows = []\<rparr>"
    by simp
  from frontend_substitutes_empty_anomalies
         [where fs = ?fs' and pd = example_pandas, OF h'] gone
  have r2: "\<exists>e'. frontend_load_data example_pandas ?fs' =
          Stopped (''Error loading data: '' @ message e')"
    by blast
  from r1 r2 show ?thesis
    by (intro conjI)
qed

end
